theory Spec2Isabelle
  imports Main
begin

section \<open>The plugin framework, as far as the provider uses it\<close>

text \<open>
  The provider is written against the Terraform plugin framework. Every operation
  receives a request and a pointer to a response; it appends diagnostics to the
  response and may overwrite or remove the state held in it. The framework types are
  modelled with the behaviour the provider relies on.
\<close>

subsection \<open>Attribute values\<close>

text \<open>
  \<open>types.String\<close>: null (the zero value), unknown, or a known string.
  \<open>ValueString\<close> returns the empty string for null and unknown.
\<close>

datatype types_String = StringNull | StringUnknown | StringValue string

fun ValueString :: "types_String \<Rightarrow> string" where
  "ValueString (StringValue s) = s"
| "ValueString StringNull = []"
| "ValueString StringUnknown = []"

fun IsKnownString :: "types_String \<Rightarrow> bool" where
  "IsKnownString (StringValue s) = True"
| "IsKnownString StringNull = False"
| "IsKnownString StringUnknown = False"

text \<open>\<open>types.Set\<close> with element type string: null (the zero value), unknown, or known elements.\<close>

datatype types_Set = SetNull | SetUnknown | SetValue "types_String list"

subsection \<open>Diagnostics\<close>

datatype Severity = SeverityError | SeverityWarning

record Diagnostic =
  Severity :: Severity
  Summary :: string
  Detail :: string

definition NewErrorDiagnostic :: "string \<Rightarrow> string \<Rightarrow> Diagnostic" where
  "NewErrorDiagnostic summary detail =
     \<lparr>Severity = SeverityError, Summary = summary, Detail = detail\<rparr>"

definition HasError :: "Diagnostic list \<Rightarrow> bool" where
  "HasError diags = list_ex (\<lambda>d. Severity d = SeverityError) diags"

text \<open>\<open>Diagnostics.Append\<close> skips a diagnostic that the collection already contains.\<close>

fun Append :: "Diagnostic list \<Rightarrow> Diagnostic list \<Rightarrow> Diagnostic list" where
  "Append diags [] = diags"
| "Append diags (d # ds) = Append (if d \<in> set diags then diags else diags @ [d]) ds"

definition AddError :: "string \<Rightarrow> string \<Rightarrow> Diagnostic list \<Rightarrow> Diagnostic list" where
  "AddError summary detail diags = Append diags [NewErrorDiagnostic summary detail]"

text \<open>
  The diagnostic of a failed conversion between a framework value and a Go value
  (\<open>Get\<close>, \<open>ElementsAs\<close>).
\<close>

definition ConversionError :: Diagnostic where
  "ConversionError = NewErrorDiagnostic ''Value Conversion Error''
     ''An unexpected error was encountered trying to build a value.''"

subsection \<open>Plan, state and configuration\<close>

text \<open>
  \<open>tfsdk.Plan\<close>, \<open>tfsdk.State\<close> and \<open>tfsdk.Config\<close> hold a raw value: null (no resource, or
  the state after \<open>RemoveResource\<close>), an object that converts to the model struct \<open>'m\<close>,
  or a value that does not convert to it. \<open>Get\<close> fills the target struct and
  reports no diagnostic for an object; otherwise it leaves the target as it was and
  reports a conversion error.
\<close>

datatype 'm tfsdk_data = Null | Object 'm | Mismatch

definition Get :: "'m tfsdk_data \<Rightarrow> 'm \<Rightarrow> Diagnostic list \<times> 'm" where
  "Get raw target =
     (case raw of
        Object m \<Rightarrow> ([], m)
      | Null \<Rightarrow> ([ConversionError], target)
      | Mismatch \<Rightarrow> ([ConversionError], target))"

text \<open>
  \<open>Set.ElementsAs(ctx, &target, false)\<close> into a string slice: a null set gives the nil
  slice; an unknown set, or a null or unknown element, is a conversion error and leaves
  the target as it was.
\<close>

definition ElementsAs :: "types_Set \<Rightarrow> string list \<Rightarrow> Diagnostic list \<times> string list" where
  "ElementsAs s target =
     (case s of
        SetNull \<Rightarrow> ([], [])
      | SetUnknown \<Rightarrow> ([ConversionError], target)
      | SetValue elems \<Rightarrow>
          if list_all IsKnownString elems then ([], map ValueString elems)
          else ([ConversionError], target))"

text \<open>
  \<open>types.SetValueFrom(ctx, types.StringType, slice)\<close>: a nil slice (an empty repeated
  field of a decoded message) gives the null set; a slice with a repeated element gives
  the unknown set and the error \<open>Duplicate Set Element\<close>; any other slice gives the set of
  its elements and no diagnostic.
\<close>

definition DuplicateSetElement :: Diagnostic where
  "DuplicateSetElement = NewErrorDiagnostic ''Duplicate Set Element''
     ''This attribute contains duplicate values.''"

definition SetValueFrom :: "string list \<Rightarrow> types_Set \<times> Diagnostic list" where
  "SetValueFrom elems =
     (if elems = [] then (SetNull, [])
      else if distinct elems then (SetValue (map StringValue elems), [])
      else (SetUnknown, [DuplicateSetElement]))"

subsection \<open>Requests and responses\<close>

record 'm CreateRequest =
  Create_Plan :: "'m tfsdk_data"

record 'm ReadRequest =
  Read_State :: "'m tfsdk_data"

record 'm UpdateRequest =
  Update_Plan :: "'m tfsdk_data"
  Update_State :: "'m tfsdk_data"

record 'm DeleteRequest =
  Delete_State :: "'m tfsdk_data"

record 'm DataSourceReadRequest =
  Read_Config :: "'m tfsdk_data"

text \<open>
  Every response (\<open>CreateResponse\<close>, \<open>ReadResponse\<close>, \<open>UpdateResponse\<close>,
  \<open>DeleteResponse\<close>, the data source's \<open>ReadResponse\<close>) carries the state and the
  diagnostics. The caller passes it in by pointer, already holding the state to keep if
  the operation writes none.
\<close>

record 'm Response =
  State :: "'m tfsdk_data"
  Diagnostics :: "Diagnostic list"

text \<open>
  An operation either returns, leaving the response as it then is, or panics on a nil
  pointer (an unconfigured client, a reply without the message it should carry).
\<close>

datatype 'r exit = Returned 'r | NilDereference

definition Diagnostics_Append :: "'m Response \<Rightarrow> Diagnostic list \<Rightarrow> 'm Response" where
  "Diagnostics_Append resp diags = resp\<lparr>Diagnostics := Append (Diagnostics resp) diags\<rparr>"

definition Diagnostics_AddError :: "string \<Rightarrow> string \<Rightarrow> 'm Response \<Rightarrow> 'm Response" where
  "Diagnostics_AddError summary detail resp =
     resp\<lparr>Diagnostics := AddError summary detail (Diagnostics resp)\<rparr>"

text \<open>
  \<open>resp.State.Set(ctx, &data)\<close> stores a model struct whose fields follow the schema
  and reports no diagnostic; \<open>resp.State.RemoveResource(ctx)\<close> makes the state null.
\<close>

definition State_Set :: "'m \<Rightarrow> 'm Response \<Rightarrow> 'm Response \<times> Diagnostic list" where
  "State_Set val resp = (resp\<lparr>State := Object val\<rparr>, [])"

definition State_RemoveResource :: "'m Response \<Rightarrow> 'm Response" where
  "State_RemoveResource resp = resp\<lparr>State := Null\<rparr>"

section \<open>Connect errors\<close>

datatype Code =
    CodeCanceled | CodeUnknown | CodeInvalidArgument | CodeDeadlineExceeded
  | CodeNotFound | CodeAlreadyExists | CodePermissionDenied | CodeResourceExhausted
  | CodeFailedPrecondition | CodeAborted | CodeOutOfRange | CodeUnimplemented
  | CodeInternal | CodeUnavailable | CodeDataLoss | CodeUnauthenticated

fun Code_String :: "Code \<Rightarrow> string" where
  "Code_String CodeCanceled = ''canceled''"
| "Code_String CodeUnknown = ''unknown''"
| "Code_String CodeInvalidArgument = ''invalid_argument''"
| "Code_String CodeDeadlineExceeded = ''deadline_exceeded''"
| "Code_String CodeNotFound = ''not_found''"
| "Code_String CodeAlreadyExists = ''already_exists''"
| "Code_String CodePermissionDenied = ''permission_denied''"
| "Code_String CodeResourceExhausted = ''resource_exhausted''"
| "Code_String CodeFailedPrecondition = ''failed_precondition''"
| "Code_String CodeAborted = ''aborted''"
| "Code_String CodeOutOfRange = ''out_of_range''"
| "Code_String CodeUnimplemented = ''unimplemented''"
| "Code_String CodeInternal = ''internal''"
| "Code_String CodeUnavailable = ''unavailable''"
| "Code_String CodeDataLoss = ''data_loss''"
| "Code_String CodeUnauthenticated = ''unauthenticated''"

text \<open>
  A Go \<open>error\<close> returned by a client: a connect error with its structured code and its
  message, or any other error with its text. A nil error is \<open>None\<close>.
\<close>

datatype error = ConnectError Code string | OtherError string

fun Error :: "error \<Rightarrow> string" where
  "Error (ConnectError code message) =
     (if message = [] then Code_String code else Code_String code @ '': '' @ message)"
| "Error (OtherError text) = text"

text \<open>\<open>connect.CodeOf\<close>: the code of a connect error, \<open>CodeUnknown\<close> for anything else, nil included.\<close>

fun CodeOf :: "error option \<Rightarrow> Code" where
  "CodeOf (Some (ConnectError code message)) = code"
| "CodeOf (Some (OtherError text)) = CodeUnknown"
| "CodeOf None = CodeUnknown"

section \<open>The Common Fate SDK, as far as the provider uses it\<close>

text \<open>
  The messages of the deployment and monitoring services, with the fields the provider
  reads or writes. A pointer field of a reply is an option: nil is \<open>None\<close>.
\<close>

subsection \<open>Messages\<close>

datatype DNSRecordType =
  DNS_RECORD_TYPE_UNSPECIFIED | DNS_RECORD_TYPE_TXT | DNS_RECORD_TYPE_CNAME

record DNSRecord =
  DNSRecord_Id :: string
  DNSRecord_Values :: "string list"

record CreateDNSRecordRequest =
  CreateDNS_Name :: string
  CreateDNS_DnsZoneName :: string
  CreateDNS_Type :: DNSRecordType
  CreateDNS_Values :: "string list"

record CreateDNSRecordResponse =
  Created :: "DNSRecord option"

record GetDNSRecordRequest =
  GetDNS_Id :: string

record GetDNSRecordResponse =
  Record :: "DNSRecord option"

record UpdateDNSRecordRequest =
  UpdateDNS_Id :: string
  UpdateDNS_Values :: "string list"

record UpdateDNSRecordResponse =
  Updated :: "DNSRecord option"

record DeleteDNSRecordRequest =
  DeleteDNS_Id :: string

record AWSACMCertificate =
  Cert_Id :: string
  Cert_Arn :: string
  Cert_DomainName :: string
  Cert_ValidationCnameName :: string
  Cert_ValidationCnameValue :: string
  Cert_Status :: string

record RegisterAWSACMCertificateRequest =
  Register_Arn :: string
  Register_DomainName :: string
  Register_ValidationCnameName :: string
  Register_ValidationCnameValue :: string
  Register_Status :: string

record RegisterAWSACMCertificateResponse =
  Registered_Certificate :: "AWSACMCertificate option"

record GetAWSACMCertificateRequest =
  GetCert_Id :: string

record GetAWSACMCertificateResponse =
  Got_Certificate :: "AWSACMCertificate option"

record UpdateAWSACMCertificateRequest =
  Update_Certificate :: AWSACMCertificate

record UpdateAWSACMCertificateResponse =
  Updated_Certificate :: "AWSACMCertificate option"

record DeregisterAWSACMCertificateRequest =
  Deregister_Id :: string

record RegisterNameserversRequest =
  Nameservers :: "string list"

record Deployment =
  Deployment_Id :: string
  Deployment_DnsZoneName :: string
  Deployment_DefaultSubdomain :: string
  Deployment_Nameservers :: "string list"

record GetDeploymentResponse =
  Got_Deployment :: "Deployment option"

record TerraformOutput =
  SamlSsoAcsUrl :: string
  SamlSsoEntityId :: string
  CognitoUserPoolId :: string
  DnsCnameRecordForAppDomain :: string
  DnsCnameRecordForAuthDomain :: string
  WebClientId :: string
  CliClientId :: string
  TerraformClientId :: string
  ReadOnlyClientId :: string
  ProvisionerClientId :: string
  VpcId :: string

record SetTerraformOutputRequest =
  Set_Output :: TerraformOutput

record GetTerraformOutputResponse =
  Got_Output :: "TerraformOutput option"

record CreateWriteTokenResponse =
  WriteToken :: string
  WriteToken_Id :: string

record GetWriteTokenRequest =
  GetWriteToken_Id :: string

record GetWriteTokenResponse =
  IsValid :: bool

subsection \<open>Clients\<close>

text \<open>
  A client method returns a reply and an error, as in Go: \<open>(res, err)\<close>. The requests
  and replies without fields (\<open>GetDeploymentRequest\<close>, \<open>GetTerraformOutputRequest\<close>,
  \<open>CreateWriteTokenRequest\<close>, the replies of the delete, deregister, register
  nameservers and set output calls) are \<open>unit\<close>.
\<close>

type_synonym 'res reply = "'res option \<times> error option"

record DeploymentServiceClient =
  CreateDNSRecord :: "CreateDNSRecordRequest \<Rightarrow> CreateDNSRecordResponse reply"
  GetDNSRecord :: "GetDNSRecordRequest \<Rightarrow> GetDNSRecordResponse reply"
  UpdateDNSRecord :: "UpdateDNSRecordRequest \<Rightarrow> UpdateDNSRecordResponse reply"
  DeleteDNSRecord :: "DeleteDNSRecordRequest \<Rightarrow> unit reply"
  RegisterAWSACMCertificate ::
    "RegisterAWSACMCertificateRequest \<Rightarrow> RegisterAWSACMCertificateResponse reply"
  GetAWSACMCertificate :: "GetAWSACMCertificateRequest \<Rightarrow> GetAWSACMCertificateResponse reply"
  UpdateAWSACMCertificate ::
    "UpdateAWSACMCertificateRequest \<Rightarrow> UpdateAWSACMCertificateResponse reply"
  DeregisterAWSACMCertificate :: "DeregisterAWSACMCertificateRequest \<Rightarrow> unit reply"
  RegisterNameservers :: "RegisterNameserversRequest \<Rightarrow> unit reply"
  GetDeployment :: "unit \<Rightarrow> GetDeploymentResponse reply"
  SetTerraformOutput :: "SetTerraformOutputRequest \<Rightarrow> unit reply"
  GetTerraformOutput :: "unit \<Rightarrow> GetTerraformOutputResponse reply"

text \<open>The token service of the monitoring client, \<open>client.Tokens()\<close>.\<close>

record MonitoringClient =
  CreateWriteToken :: "unit \<Rightarrow> CreateWriteTokenResponse reply"
  GetWriteToken :: "GetWriteTokenRequest \<Rightarrow> GetWriteTokenResponse reply"

text \<open>The remote calls an operation has made, in order, each with its request.\<close>

datatype rpc =
    Call_CreateDNSRecord CreateDNSRecordRequest
  | Call_GetDNSRecord GetDNSRecordRequest
  | Call_UpdateDNSRecord UpdateDNSRecordRequest
  | Call_DeleteDNSRecord DeleteDNSRecordRequest
  | Call_RegisterAWSACMCertificate RegisterAWSACMCertificateRequest
  | Call_GetAWSACMCertificate GetAWSACMCertificateRequest
  | Call_UpdateAWSACMCertificate UpdateAWSACMCertificateRequest
  | Call_DeregisterAWSACMCertificate DeregisterAWSACMCertificateRequest
  | Call_RegisterNameservers RegisterNameserversRequest
  | Call_GetDeployment
  | Call_SetTerraformOutput SetTerraformOutputRequest
  | Call_GetTerraformOutput
  | Call_CreateWriteToken
  | Call_GetWriteToken GetWriteTokenRequest

type_synonym 'm result = "'m Response exit \<times> rpc list"

section \<open>The provider\<close>

text \<open>
  A resource struct holds only its client, nil until \<open>Configure\<close> has run. The
  operations below take that field, \<open>r.client\<close>, as their first argument.
\<close>

datatype Resource =
    DNSRecordResource "DeploymentServiceClient option"
  | AWSACMCertificateResource "DeploymentServiceClient option"
  | NameserversResource "DeploymentServiceClient option"
  | MonitoringWriteTokenResource "MonitoringClient option"
  | TerraformOutputResource "DeploymentServiceClient option"

datatype DataSource =
    DeploymentDataSource "DeploymentServiceClient option"

definition NewDNSRecordResource :: "unit \<Rightarrow> Resource" where
  "NewDNSRecordResource = (\<lambda>_. DNSRecordResource None)"

definition NewAWSACMCertificateResource :: "unit \<Rightarrow> Resource" where
  "NewAWSACMCertificateResource = (\<lambda>_. AWSACMCertificateResource None)"

definition NewNameserversResource :: "unit \<Rightarrow> Resource" where
  "NewNameserversResource = (\<lambda>_. NameserversResource None)"

definition NewMonitoringWriteTokenResource :: "unit \<Rightarrow> Resource" where
  "NewMonitoringWriteTokenResource = (\<lambda>_. MonitoringWriteTokenResource None)"

definition NewTerraformOutputResource :: "unit \<Rightarrow> Resource" where
  "NewTerraformOutputResource = (\<lambda>_. TerraformOutputResource None)"

definition NewDeploymentDataSource :: "unit \<Rightarrow> DataSource" where
  "NewDeploymentDataSource = (\<lambda>_. DeploymentDataSource None)"

text \<open>\<open>DeploymentProvider.Resources\<close> and \<open>DeploymentProvider.DataSources\<close>.\<close>

definition Resources :: "(unit \<Rightarrow> Resource) list" where
  "Resources = [NewNameserversResource]"

definition DataSources :: "(unit \<Rightarrow> DataSource) list" where
  "DataSources = [NewDeploymentDataSource]"

section \<open>DNS records\<close>

record DNSRecordResourceModel =
  DNS_ID :: types_String
  DNS_Name :: types_String
  DNS_Type :: types_String
  DNS_ZoneName :: types_String
  DNS_Values :: types_Set

text \<open>The zero value of the struct, \<open>var data DNSRecordResourceModel\<close>.\<close>

definition DNSRecordResourceModel_zero :: DNSRecordResourceModel where
  "DNSRecordResourceModel_zero =
     \<lparr>DNS_ID = StringNull, DNS_Name = StringNull, DNS_Type = StringNull,
      DNS_ZoneName = StringNull, DNS_Values = SetNull\<rparr>"

definition DNSRecordResource_Create ::
  "DeploymentServiceClient option \<Rightarrow> DNSRecordResourceModel CreateRequest
     \<Rightarrow> DNSRecordResourceModel Response \<Rightarrow> DNSRecordResourceModel result" where
  "DNSRecordResource_Create client req resp0 =
     (let (diags, data) = Get (Create_Plan req) DNSRecordResourceModel_zero;
          resp = Diagnostics_Append resp0 diags
      in if HasError (Diagnostics resp) then (Returned resp, [])
      else
      let (diags, values) = ElementsAs (DNS_Values data) [];
          resp = Diagnostics_Append resp diags
      in if HasError (Diagnostics resp) then (Returned resp, [])
      else
      case (if ValueString (DNS_Type data) = ''TXT'' then Some DNS_RECORD_TYPE_TXT
            else if ValueString (DNS_Type data) = ''CNAME'' then Some DNS_RECORD_TYPE_CNAME
            else None) of
        None \<Rightarrow>
          (Returned (Diagnostics_AddError ''Invalid DNS record type''
             (''the DNS record type '' @ [CHR 0x27] @ ValueString (DNS_Type data) @ [CHR 0x27]
                @ '' is invalid. Valid values are ['' @ [CHR 0x27] @ ''TXT'' @ [CHR 0x27]
                @ '', '' @ [CHR 0x27] @ ''CNAME'' @ [CHR 0x27] @ '']'') resp), [])
      | Some rrType \<Rightarrow>
         (let rq = \<lparr>CreateDNS_Name = ValueString (DNS_Name data),
                    CreateDNS_DnsZoneName = ValueString (DNS_ZoneName data),
                    CreateDNS_Type = rrType,
                    CreateDNS_Values = values\<rparr>
          in
          (case client of
            None \<Rightarrow> (NilDereference, [])
          | Some c \<Rightarrow>
             (let (res, err) = CreateDNSRecord c rq in
              (case err of
                Some e \<Rightarrow>
                  (Returned (Diagnostics_AddError ''Common Fate Deployment API error''
                     (''Unable to create a DNS record for the deployment, got error: '' @ Error e)
                     resp), [Call_CreateDNSRecord rq])
              | None \<Rightarrow>
                  (case res of
                     None \<Rightarrow> (NilDereference, [Call_CreateDNSRecord rq])
                   | Some msg \<Rightarrow>
                       (case Created msg of
                          None \<Rightarrow> (NilDereference, [Call_CreateDNSRecord rq])
                        | Some created \<Rightarrow>
                            let data = data\<lparr>DNS_ID := StringValue (DNSRecord_Id created)\<rparr>;
                                (resp, diags) = State_Set data resp;
                                resp = Diagnostics_Append resp diags
                            in (Returned resp, [Call_CreateDNSRecord rq]))))))))"

definition DNSRecordResource_Read ::
  "DeploymentServiceClient option \<Rightarrow> DNSRecordResourceModel ReadRequest
     \<Rightarrow> DNSRecordResourceModel Response \<Rightarrow> DNSRecordResourceModel result" where
  "DNSRecordResource_Read client req resp0 =
     (let (diags, data) = Get (Read_State req) DNSRecordResourceModel_zero;
          resp = Diagnostics_Append resp0 diags
      in if HasError (Diagnostics resp) then (Returned resp, [])
      else
      let rq = \<lparr>GetDNS_Id = ValueString (DNS_ID data)\<rparr> in
      (case client of
        None \<Rightarrow> (NilDereference, [])
      | Some c \<Rightarrow>
         (let (apiRes, err) = GetDNSRecord c rq in
          if CodeOf err = CodeNotFound then
            (Returned (State_RemoveResource resp), [Call_GetDNSRecord rq])
          else
          (case err of
            Some e \<Rightarrow>
              (Returned (Diagnostics_AddError ''Client Error''
                 (''Unable to read Common Fate DNS record, got error: '' @ Error e) resp),
               [Call_GetDNSRecord rq])
          | None \<Rightarrow>
              (case apiRes of
                 None \<Rightarrow> (NilDereference, [Call_GetDNSRecord rq])
               | Some msg \<Rightarrow>
                   (case Record msg of
                      None \<Rightarrow> (NilDereference, [Call_GetDNSRecord rq])
                    | Some record \<Rightarrow>
                        let data = data\<lparr>DNS_ID := StringValue (DNSRecord_Id record)\<rparr>;
                            (values, diags) = SetValueFrom (DNSRecord_Values record);
                            resp = Diagnostics_Append resp diags
                        in if HasError (Diagnostics resp)
                           then (Returned resp, [Call_GetDNSRecord rq])
                        else
                        let data = data\<lparr>DNS_Values := values\<rparr>;
                            (resp, diags) = State_Set data resp;
                            resp = Diagnostics_Append resp diags
                        in (Returned resp, [Call_GetDNSRecord rq])))))))"

definition DNSRecordResource_Update ::
  "DeploymentServiceClient option \<Rightarrow> DNSRecordResourceModel UpdateRequest
     \<Rightarrow> DNSRecordResourceModel Response \<Rightarrow> DNSRecordResourceModel result" where
  "DNSRecordResource_Update client req resp0 =
     (let (diags, data) = Get (Update_Plan req) DNSRecordResourceModel_zero;
          resp = Diagnostics_Append resp0 diags
      in if HasError (Diagnostics resp) then (Returned resp, [])
      else
      let (diags, values) = ElementsAs (DNS_Values data) [];
          resp = Diagnostics_Append resp diags
      in if HasError (Diagnostics resp) then (Returned resp, [])
      else
      let rq = \<lparr>UpdateDNS_Id = ValueString (DNS_ID data), UpdateDNS_Values = values\<rparr> in
      (case client of
        None \<Rightarrow> (NilDereference, [])
      | Some c \<Rightarrow>
         (let (res, err) = UpdateDNSRecord c rq in
          (case err of
            Some e \<Rightarrow>
              (Returned (Diagnostics_AddError ''Common Fate Deployment API error''
                 (''Unable to update a DNS record for the deployment, got error: '' @ Error e)
                 resp), [Call_UpdateDNSRecord rq])
          | None \<Rightarrow>
              (case res of
                 None \<Rightarrow> (NilDereference, [Call_UpdateDNSRecord rq])
               | Some msg \<Rightarrow>
                   (case Updated msg of
                      None \<Rightarrow> (NilDereference, [Call_UpdateDNSRecord rq])
                    | Some updated \<Rightarrow>
                        let data = data\<lparr>DNS_ID := StringValue (DNSRecord_Id updated)\<rparr>;
                            (resp, diags) = State_Set data resp;
                            resp = Diagnostics_Append resp diags
                        in (Returned resp, [Call_UpdateDNSRecord rq])))))))"

definition DNSRecordResource_Delete ::
  "DeploymentServiceClient option \<Rightarrow> DNSRecordResourceModel DeleteRequest
     \<Rightarrow> DNSRecordResourceModel Response \<Rightarrow> DNSRecordResourceModel result" where
  "DNSRecordResource_Delete client req resp0 =
     (let (diags, data) = Get (Delete_State req) DNSRecordResourceModel_zero;
          resp = Diagnostics_Append resp0 diags
      in if HasError (Diagnostics resp) then (Returned resp, [])
      else
      let (diags, values) = ElementsAs (DNS_Values data) [];
          resp = Diagnostics_Append resp diags
      in if HasError (Diagnostics resp) then (Returned resp, [])
      else
      let rq = \<lparr>DeleteDNS_Id = ValueString (DNS_ID data)\<rparr> in
      (case client of
        None \<Rightarrow> (NilDereference, [])
      | Some c \<Rightarrow>
         (let (res, err) = DeleteDNSRecord c rq in
          (case err of
            Some e \<Rightarrow>
              (Returned (Diagnostics_AddError ''Common Fate Deployment API error''
                 (''Unable to delete DNS record for the deployment, got error: '' @ Error e)
                 resp), [Call_DeleteDNSRecord rq])
          | None \<Rightarrow> (Returned resp, [Call_DeleteDNSRecord rq])))))"

section \<open>AWS ACM certificates\<close>

record AWSACMCertificateResourceModel =
  ACM_ID :: types_String
  ACM_ARN :: types_String
  ACM_DomainName :: types_String
  ACM_ValidationCNameName :: types_String
  ACM_ValidationCNameValue :: types_String
  ACM_Status :: types_String

definition AWSACMCertificateResourceModel_zero :: AWSACMCertificateResourceModel where
  "AWSACMCertificateResourceModel_zero =
     \<lparr>ACM_ID = StringNull, ACM_ARN = StringNull, ACM_DomainName = StringNull,
      ACM_ValidationCNameName = StringNull, ACM_ValidationCNameValue = StringNull,
      ACM_Status = StringNull\<rparr>"

definition AWSACMCertificateResource_Create ::
  "DeploymentServiceClient option \<Rightarrow> AWSACMCertificateResourceModel CreateRequest
     \<Rightarrow> AWSACMCertificateResourceModel Response \<Rightarrow> AWSACMCertificateResourceModel result" where
  "AWSACMCertificateResource_Create client req resp0 =
     (let (diags, data) = Get (Create_Plan req) AWSACMCertificateResourceModel_zero;
          resp = Diagnostics_Append resp0 diags
      in if HasError (Diagnostics resp) then (Returned resp, [])
      else
      let rq = \<lparr>Register_Arn = ValueString (ACM_ARN data),
                Register_DomainName = ValueString (ACM_DomainName data),
                Register_ValidationCnameName = ValueString (ACM_ValidationCNameName data),
                Register_ValidationCnameValue = ValueString (ACM_ValidationCNameValue data),
                Register_Status = ValueString (ACM_Status data)\<rparr>
      in
      (case client of
         None \<Rightarrow> (NilDereference, [])
       | Some c \<Rightarrow>
          (let (res, err) = RegisterAWSACMCertificate c rq in
           (case err of
              Some e \<Rightarrow>
                (Returned (Diagnostics_AddError ''Common Fate Deployment API error''
                   (''Unable to register AWS ACM certificate for the deployment, got error: ''
                      @ Error e) resp),
                 [Call_RegisterAWSACMCertificate rq])
            | None \<Rightarrow>
                (case res of
                   None \<Rightarrow> (NilDereference, [Call_RegisterAWSACMCertificate rq])
                 | Some msg \<Rightarrow>
                     (case Registered_Certificate msg of
                        None \<Rightarrow> (NilDereference, [Call_RegisterAWSACMCertificate rq])
                      | Some cert \<Rightarrow>
                          let data = data\<lparr>ACM_ID := StringValue (Cert_Id cert)\<rparr>;
                              (resp, diags) = State_Set data resp;
                              resp = Diagnostics_Append resp diags
                          in (Returned resp, [Call_RegisterAWSACMCertificate rq])))))))"

definition AWSACMCertificateResource_Read ::
  "DeploymentServiceClient option \<Rightarrow> AWSACMCertificateResourceModel ReadRequest
     \<Rightarrow> AWSACMCertificateResourceModel Response \<Rightarrow> AWSACMCertificateResourceModel result" where
  "AWSACMCertificateResource_Read client req resp0 =
     (let (diags, data) = Get (Read_State req) AWSACMCertificateResourceModel_zero;
          resp = Diagnostics_Append resp0 diags
      in if HasError (Diagnostics resp) then (Returned resp, [])
      else
      let rq = \<lparr>GetCert_Id = ValueString (ACM_ID data)\<rparr> in
      (case client of
         None \<Rightarrow> (NilDereference, [])
       | Some c \<Rightarrow>
          (let (apiRes, err) = GetAWSACMCertificate c rq in
           if CodeOf err = CodeNotFound then
             (Returned (State_RemoveResource resp), [Call_GetAWSACMCertificate rq])
           else
           (case err of
              Some e \<Rightarrow>
                (Returned (Diagnostics_AddError ''Client Error''
                   (''Unable to read Common Fate DNS record, got error: '' @ Error e) resp),
                 [Call_GetAWSACMCertificate rq])
            | None \<Rightarrow>
                (case apiRes of
                   None \<Rightarrow> (NilDereference, [Call_GetAWSACMCertificate rq])
                 | Some msg \<Rightarrow>
                     (case Got_Certificate msg of
                        None \<Rightarrow> (NilDereference, [Call_GetAWSACMCertificate rq])
                      | Some cert \<Rightarrow>
                          let data = data\<lparr>ACM_ID := StringValue (Cert_Id cert)\<rparr>;
                              data = data\<lparr>ACM_ARN := StringValue (Cert_Arn cert)\<rparr>;
                              data = data\<lparr>ACM_DomainName := StringValue (Cert_DomainName cert)\<rparr>;
                              data = data\<lparr>ACM_ValidationCNameName :=
                                       StringValue (Cert_ValidationCnameName cert)\<rparr>;
                              data = data\<lparr>ACM_ValidationCNameValue :=
                                       StringValue (Cert_ValidationCnameValue cert)\<rparr>;
                              data = data\<lparr>ACM_Status := StringValue (Cert_Status cert)\<rparr>;
                              (resp, diags) = State_Set data resp;
                              resp = Diagnostics_Append resp diags
                          in (Returned resp, [Call_GetAWSACMCertificate rq])))))))"

definition AWSACMCertificateResource_Update ::
  "DeploymentServiceClient option \<Rightarrow> AWSACMCertificateResourceModel UpdateRequest
     \<Rightarrow> AWSACMCertificateResourceModel Response \<Rightarrow> AWSACMCertificateResourceModel result" where
  "AWSACMCertificateResource_Update client req resp0 =
     (let (diags, data) = Get (Update_Plan req) AWSACMCertificateResourceModel_zero;
          resp = Diagnostics_Append resp0 diags
      in if HasError (Diagnostics resp) then (Returned resp, [])
      else
      let rq = \<lparr>Update_Certificate =
                 \<lparr>Cert_Id = ValueString (ACM_ID data),
                  Cert_Arn = ValueString (ACM_ARN data),
                  Cert_DomainName = ValueString (ACM_DomainName data),
                  Cert_ValidationCnameName = ValueString (ACM_ValidationCNameName data),
                  Cert_ValidationCnameValue = ValueString (ACM_ValidationCNameValue data),
                  Cert_Status = ValueString (ACM_Status data)\<rparr>\<rparr>
      in
      (case client of
         None \<Rightarrow> (NilDereference, [])
       | Some c \<Rightarrow>
          (let (res, err) = UpdateAWSACMCertificate c rq in
           (case err of
              Some e \<Rightarrow>
                (Returned (Diagnostics_AddError ''Common Fate Deployment API error''
                   (''Unable to update AWS ACM certificate for the deployment, got error: ''
                      @ Error e) resp),
                 [Call_UpdateAWSACMCertificate rq])
            | None \<Rightarrow>
                (case res of
                   None \<Rightarrow> (NilDereference, [Call_UpdateAWSACMCertificate rq])
                 | Some msg \<Rightarrow>
                     (case Updated_Certificate msg of
                        None \<Rightarrow> (NilDereference, [Call_UpdateAWSACMCertificate rq])
                      | Some cert \<Rightarrow>
                          let data = data\<lparr>ACM_ID := StringValue (Cert_Id cert)\<rparr>;
                              (resp, diags) = State_Set data resp;
                              resp = Diagnostics_Append resp diags
                          in (Returned resp, [Call_UpdateAWSACMCertificate rq])))))))"

text \<open>\<open>Delete\<close> appends the diagnostics of reading the state and goes on to the call.\<close>

definition AWSACMCertificateResource_Delete ::
  "DeploymentServiceClient option \<Rightarrow> AWSACMCertificateResourceModel DeleteRequest
     \<Rightarrow> AWSACMCertificateResourceModel Response \<Rightarrow> AWSACMCertificateResourceModel result" where
  "AWSACMCertificateResource_Delete client req resp0 =
     (let (diags, data) = Get (Delete_State req) AWSACMCertificateResourceModel_zero;
          resp = Diagnostics_Append resp0 diags;
          rq = \<lparr>Deregister_Id = ValueString (ACM_ID data)\<rparr>
      in
      (case client of
         None \<Rightarrow> (NilDereference, [])
       | Some c \<Rightarrow>
          (let (res, err) = DeregisterAWSACMCertificate c rq in
           if CodeOf err = CodeNotFound then
             (Returned resp, [Call_DeregisterAWSACMCertificate rq])
           else
           (case err of
              Some e \<Rightarrow>
                (Returned (Diagnostics_AddError ''Common Fate Deployment API error''
                   (''Unable to delete ACM certificate for the deployment, got error: ''
                      @ Error e) resp),
                 [Call_DeregisterAWSACMCertificate rq])
            | None \<Rightarrow> (Returned resp, [Call_DeregisterAWSACMCertificate rq])))))"

section \<open>Nameservers\<close>

record NameserversResourceModel =
  NS_Records :: types_Set

definition NameserversResourceModel_zero :: NameserversResourceModel where
  "NameserversResourceModel_zero = \<lparr>NS_Records = SetNull\<rparr>"

definition NameserversResource_Create ::
  "DeploymentServiceClient option \<Rightarrow> NameserversResourceModel CreateRequest
     \<Rightarrow> NameserversResourceModel Response \<Rightarrow> NameserversResourceModel result" where
  "NameserversResource_Create client req resp0 =
     (let (diags, data) = Get (Create_Plan req) NameserversResourceModel_zero;
          resp = Diagnostics_Append resp0 diags
      in if HasError (Diagnostics resp) then (Returned resp, [])
      else
      let (diags, records) = ElementsAs (NS_Records data) [];
          resp = Diagnostics_Append resp diags
      in if HasError (Diagnostics resp) then (Returned resp, [])
      else
      let rq = \<lparr>Nameservers = records\<rparr> in
      (case client of
         None \<Rightarrow> (NilDereference, [])
       | Some c \<Rightarrow>
          (let (res, err) = RegisterNameservers c rq in
           (case err of
              Some e \<Rightarrow>
                (Returned (Diagnostics_AddError ''Common Fate Deployment API error''
                   (''Unable to create register a DNS namespace for the deployment, got error: ''
                      @ Error e) resp),
                 [Call_RegisterNameservers rq])
            | None \<Rightarrow>
                let (resp, diags) = State_Set data resp;
                    resp = Diagnostics_Append resp diags
                in (Returned resp, [Call_RegisterNameservers rq])))))"

definition NameserversResource_Read ::
  "DeploymentServiceClient option \<Rightarrow> NameserversResourceModel ReadRequest
     \<Rightarrow> NameserversResourceModel Response \<Rightarrow> NameserversResourceModel result" where
  "NameserversResource_Read client req resp0 =
     (let (diags, data) = Get (Read_State req) NameserversResourceModel_zero;
          resp = Diagnostics_Append resp0 diags
      in if HasError (Diagnostics resp) then (Returned resp, [])
      else
      (case client of
         None \<Rightarrow> (NilDereference, [])
       | Some c \<Rightarrow>
          (let (apiRes, err) = GetDeployment c () in
           if CodeOf err = CodeNotFound then
             (Returned (State_RemoveResource resp), [Call_GetDeployment])
           else
           (case err of
              Some e \<Rightarrow>
                (Returned (Diagnostics_AddError ''Client Error''
                   (''Unable to read Common Fate deployment metadata, got error: '' @ Error e)
                   resp),
                 [Call_GetDeployment])
            | None \<Rightarrow>
                (case apiRes of
                   None \<Rightarrow> (NilDereference, [Call_GetDeployment])
                 | Some msg \<Rightarrow>
                     (case Got_Deployment msg of
                        None \<Rightarrow> (NilDereference, [Call_GetDeployment])
                      | Some deployment \<Rightarrow>
                          let (records, diags) =
                                SetValueFrom (Deployment_Nameservers deployment);
                              resp = Diagnostics_Append resp diags
                          in if HasError (Diagnostics resp)
                             then (Returned resp, [Call_GetDeployment])
                          else
                          let data = data\<lparr>NS_Records := records\<rparr>;
                              (resp, diags) = State_Set data resp;
                              resp = Diagnostics_Append resp diags
                          in (Returned resp, [Call_GetDeployment])))))))"

definition NameserversResource_Update ::
  "DeploymentServiceClient option \<Rightarrow> NameserversResourceModel UpdateRequest
     \<Rightarrow> NameserversResourceModel Response \<Rightarrow> NameserversResourceModel result" where
  "NameserversResource_Update client req resp0 =
     (let (diags, data) = Get (Update_Plan req) NameserversResourceModel_zero;
          resp = Diagnostics_Append resp0 diags
      in if HasError (Diagnostics resp) then (Returned resp, [])
      else
      let (diags, records) = ElementsAs (NS_Records data) [];
          resp = Diagnostics_Append resp diags
      in if HasError (Diagnostics resp) then (Returned resp, [])
      else
      let rq = \<lparr>Nameservers = records\<rparr> in
      (case client of
         None \<Rightarrow> (NilDereference, [])
       | Some c \<Rightarrow>
          (let (res, err) = RegisterNameservers c rq in
           (case err of
              Some e \<Rightarrow>
                (Returned (Diagnostics_AddError ''Common Fate Deployment API error''
                   (''Unable to create register a DNS namespace for the deployment, got error: ''
                      @ Error e) resp),
                 [Call_RegisterNameservers rq])
            | None \<Rightarrow>
                let (resp, diags) = State_Set data resp;
                    resp = Diagnostics_Append resp diags
                in (Returned resp, [Call_RegisterNameservers rq])))))"

text \<open>Deleting is a no-op: the body of \<open>Delete\<close> is a comment.\<close>

definition NameserversResource_Delete ::
  "DeploymentServiceClient option \<Rightarrow> NameserversResourceModel DeleteRequest
     \<Rightarrow> NameserversResourceModel Response \<Rightarrow> NameserversResourceModel result" where
  "NameserversResource_Delete client req resp = (Returned resp, [])"

section \<open>Monitoring write tokens\<close>

record MonitoringWriteTokenResourceModel =
  Token_ID :: types_String
  Token_Token :: types_String

definition MonitoringWriteTokenResourceModel_zero :: MonitoringWriteTokenResourceModel where
  "MonitoringWriteTokenResourceModel_zero = \<lparr>Token_ID = StringNull, Token_Token = StringNull\<rparr>"

definition MonitoringWriteTokenResource_Create ::
  "MonitoringClient option \<Rightarrow> MonitoringWriteTokenResourceModel CreateRequest
     \<Rightarrow> MonitoringWriteTokenResourceModel Response
     \<Rightarrow> MonitoringWriteTokenResourceModel result" where
  "MonitoringWriteTokenResource_Create client req resp0 =
     (let (diags, data) = Get (Create_Plan req) MonitoringWriteTokenResourceModel_zero;
          resp = Diagnostics_Append resp0 diags
      in if HasError (Diagnostics resp) then (Returned resp, [])
      else
      (case client of
         None \<Rightarrow> (NilDereference, [])
       | Some c \<Rightarrow>
          (let (res, err) = CreateWriteToken c () in
           (case err of
              Some e \<Rightarrow>
                (Returned (Diagnostics_AddError ''Common Fate Deployment API error''
                   (''Unable to create a monitoring write token for the deployment, got error: ''
                      @ Error e) resp),
                 [Call_CreateWriteToken])
            | None \<Rightarrow>
                (case res of
                   None \<Rightarrow> (NilDereference, [Call_CreateWriteToken])
                 | Some msg \<Rightarrow>
                     let data = data\<lparr>Token_Token := StringValue (WriteToken msg)\<rparr>;
                         data = data\<lparr>Token_ID := StringValue (WriteToken_Id msg)\<rparr>;
                         (resp, diags) = State_Set data resp;
                         resp = Diagnostics_Append resp diags
                     in (Returned resp, [Call_CreateWriteToken]))))))"

text \<open>
  \<open>Read\<close> reads the prior state and does nothing more: the check of the token against
  the service is a comment. \<open>Update\<close> and \<open>Delete\<close> have no statement at all.
\<close>

definition MonitoringWriteTokenResource_Read ::
  "MonitoringClient option \<Rightarrow> MonitoringWriteTokenResourceModel ReadRequest
     \<Rightarrow> MonitoringWriteTokenResourceModel Response
     \<Rightarrow> MonitoringWriteTokenResourceModel result" where
  "MonitoringWriteTokenResource_Read client req resp0 =
     (let (diags, data) = Get (Read_State req) MonitoringWriteTokenResourceModel_zero;
          resp = Diagnostics_Append resp0 diags
      in if HasError (Diagnostics resp) then (Returned resp, [])
      else (Returned resp, []))"

definition MonitoringWriteTokenResource_Update ::
  "MonitoringClient option \<Rightarrow> MonitoringWriteTokenResourceModel UpdateRequest
     \<Rightarrow> MonitoringWriteTokenResourceModel Response
     \<Rightarrow> MonitoringWriteTokenResourceModel result" where
  "MonitoringWriteTokenResource_Update client req resp = (Returned resp, [])"

definition MonitoringWriteTokenResource_Delete ::
  "MonitoringClient option \<Rightarrow> MonitoringWriteTokenResourceModel DeleteRequest
     \<Rightarrow> MonitoringWriteTokenResourceModel Response
     \<Rightarrow> MonitoringWriteTokenResourceModel result" where
  "MonitoringWriteTokenResource_Delete client req resp = (Returned resp, [])"

section \<open>Terraform outputs\<close>

record TerraformOutputResourceModel =
  SAMLSSOACSURL :: types_String
  SAMLSSOEntityID :: types_String
  CognitoUserPoolID :: types_String
  DNSCNAMERecordForAppDomain :: types_String
  DNSCNAMERecordForAuthDomain :: types_String
  WebClientID :: types_String
  CLIClientID :: types_String
  TerraformClientID :: types_String
  ReadOnlyClientID :: types_String
  ProvisionerClientID :: types_String
  VPCID :: types_String

definition TerraformOutputResourceModel_zero :: TerraformOutputResourceModel where
  "TerraformOutputResourceModel_zero =
     \<lparr>SAMLSSOACSURL = StringNull, SAMLSSOEntityID = StringNull,
      CognitoUserPoolID = StringNull, DNSCNAMERecordForAppDomain = StringNull,
      DNSCNAMERecordForAuthDomain = StringNull, WebClientID = StringNull,
      CLIClientID = StringNull, TerraformClientID = StringNull,
      ReadOnlyClientID = StringNull, ProvisionerClientID = StringNull,
      VPCID = StringNull\<rparr>"

definition TerraformOutputResource_Create ::
  "DeploymentServiceClient option \<Rightarrow> TerraformOutputResourceModel CreateRequest
     \<Rightarrow> TerraformOutputResourceModel Response \<Rightarrow> TerraformOutputResourceModel result" where
  "TerraformOutputResource_Create client req resp0 =
     (let (diags, data) = Get (Create_Plan req) TerraformOutputResourceModel_zero;
          resp = Diagnostics_Append resp0 diags
      in if HasError (Diagnostics resp) then (Returned resp, [])
      else
      let rq = \<lparr>Set_Output =
                 \<lparr>SamlSsoAcsUrl = ValueString (SAMLSSOACSURL data),
                  SamlSsoEntityId = ValueString (SAMLSSOEntityID data),
                  CognitoUserPoolId = ValueString (CognitoUserPoolID data),
                  DnsCnameRecordForAppDomain = ValueString (DNSCNAMERecordForAppDomain data),
                  DnsCnameRecordForAuthDomain = ValueString (DNSCNAMERecordForAuthDomain data),
                  WebClientId = ValueString (WebClientID data),
                  CliClientId = ValueString (CLIClientID data),
                  TerraformClientId = ValueString (TerraformClientID data),
                  ReadOnlyClientId = ValueString (ReadOnlyClientID data),
                  ProvisionerClientId = ValueString (ProvisionerClientID data),
                  VpcId = ValueString (VPCID data)\<rparr>\<rparr>
      in
      (case client of
         None \<Rightarrow> (NilDereference, [])
       | Some c \<Rightarrow>
          (let (res, err) = SetTerraformOutput c rq in
           (case err of
              Some e \<Rightarrow>
                (Returned (Diagnostics_AddError ''Common Fate Deployment API error''
                   (''Unable to set Terraform outputs for the deployment, got error: ''
                      @ Error e) resp),
                 [Call_SetTerraformOutput rq])
            | None \<Rightarrow>
                let (resp, diags) = State_Set data resp;
                    resp = Diagnostics_Append resp diags
                in (Returned resp, [Call_SetTerraformOutput rq])))))"

definition TerraformOutputResource_Read ::
  "DeploymentServiceClient option \<Rightarrow> TerraformOutputResourceModel ReadRequest
     \<Rightarrow> TerraformOutputResourceModel Response \<Rightarrow> TerraformOutputResourceModel result" where
  "TerraformOutputResource_Read client req resp0 =
     (let (diags, data) = Get (Read_State req) TerraformOutputResourceModel_zero;
          resp = Diagnostics_Append resp0 diags
      in if HasError (Diagnostics resp) then (Returned resp, [])
      else
      (case client of
         None \<Rightarrow> (NilDereference, [])
       | Some c \<Rightarrow>
          (let (apiRes, err) = GetTerraformOutput c () in
           if CodeOf err = CodeNotFound then
             (Returned (State_RemoveResource resp), [Call_GetTerraformOutput])
           else
           (case err of
              Some e \<Rightarrow>
                (Returned (Diagnostics_AddError ''Client Error''
                   (''Unable to read Common Fate DNS record, got error: '' @ Error e) resp),
                 [Call_GetTerraformOutput])
            | None \<Rightarrow>
                (case apiRes of
                   None \<Rightarrow> (NilDereference, [Call_GetTerraformOutput])
                 | Some msg \<Rightarrow>
                     (case Got_Output msg of
                        None \<Rightarrow> (NilDereference, [Call_GetTerraformOutput])
                      | Some output \<Rightarrow>
                          let data = data\<lparr>SAMLSSOACSURL := StringValue (SamlSsoAcsUrl output)\<rparr>;
                              data = data\<lparr>SAMLSSOEntityID :=
                                       StringValue (SamlSsoEntityId output)\<rparr>;
                              data = data\<lparr>CognitoUserPoolID :=
                                       StringValue (CognitoUserPoolId output)\<rparr>;
                              data = data\<lparr>DNSCNAMERecordForAppDomain :=
                                       StringValue (DnsCnameRecordForAppDomain output)\<rparr>;
                              data = data\<lparr>DNSCNAMERecordForAuthDomain :=
                                       StringValue (DnsCnameRecordForAuthDomain output)\<rparr>;
                              data = data\<lparr>WebClientID := StringValue (WebClientId output)\<rparr>;
                              data = data\<lparr>CLIClientID := StringValue (CliClientId output)\<rparr>;
                              data = data\<lparr>TerraformClientID :=
                                       StringValue (TerraformClientId output)\<rparr>;
                              data = data\<lparr>ReadOnlyClientID :=
                                       StringValue (ReadOnlyClientId output)\<rparr>;
                              data = data\<lparr>ProvisionerClientID :=
                                       StringValue (ProvisionerClientId output)\<rparr>;
                              data = data\<lparr>VPCID := StringValue (VpcId output)\<rparr>;
                              (resp, diags) = State_Set data resp;
                              resp = Diagnostics_Append resp diags
                          in (Returned resp, [Call_GetTerraformOutput])))))))"

definition TerraformOutputResource_Update ::
  "DeploymentServiceClient option \<Rightarrow> TerraformOutputResourceModel UpdateRequest
     \<Rightarrow> TerraformOutputResourceModel Response \<Rightarrow> TerraformOutputResourceModel result" where
  "TerraformOutputResource_Update client req resp0 =
     (let (diags, data) = Get (Update_Plan req) TerraformOutputResourceModel_zero;
          resp = Diagnostics_Append resp0 diags
      in if HasError (Diagnostics resp) then (Returned resp, [])
      else
      let rq = \<lparr>Set_Output =
                 \<lparr>SamlSsoAcsUrl = ValueString (SAMLSSOACSURL data),
                  SamlSsoEntityId = ValueString (SAMLSSOEntityID data),
                  CognitoUserPoolId = ValueString (CognitoUserPoolID data),
                  DnsCnameRecordForAppDomain = ValueString (DNSCNAMERecordForAppDomain data),
                  DnsCnameRecordForAuthDomain = ValueString (DNSCNAMERecordForAuthDomain data),
                  WebClientId = ValueString (WebClientID data),
                  CliClientId = ValueString (CLIClientID data),
                  TerraformClientId = ValueString (TerraformClientID data),
                  ReadOnlyClientId = ValueString (ReadOnlyClientID data),
                  ProvisionerClientId = ValueString (ProvisionerClientID data),
                  VpcId = ValueString (VPCID data)\<rparr>\<rparr>
      in
      (case client of
         None \<Rightarrow> (NilDereference, [])
       | Some c \<Rightarrow>
          (let (res, err) = SetTerraformOutput c rq in
           (case err of
              Some e \<Rightarrow>
                (Returned (Diagnostics_AddError ''Common Fate Deployment API error''
                   (''Unable to set Terraform outputs for the deployment, got error: ''
                      @ Error e) resp),
                 [Call_SetTerraformOutput rq])
            | None \<Rightarrow>
                let (resp, diags) = State_Set data resp;
                    resp = Diagnostics_Append resp diags
                in (Returned resp, [Call_SetTerraformOutput rq])))))"

text \<open>\<open>Delete\<close> is a no-op: its body is a comment.\<close>

definition TerraformOutputResource_Delete ::
  "DeploymentServiceClient option \<Rightarrow> TerraformOutputResourceModel DeleteRequest
     \<Rightarrow> TerraformOutputResourceModel Response \<Rightarrow> TerraformOutputResourceModel result" where
  "TerraformOutputResource_Delete client req resp = (Returned resp, [])"

section \<open>The deployment data source\<close>

record DeploymentDataSourceModel =
  DS_DNSZoneName :: types_String
  DS_DefaultSubdomain :: types_String
  DS_Id :: types_String

definition DeploymentDataSourceModel_zero :: DeploymentDataSourceModel where
  "DeploymentDataSourceModel_zero =
     \<lparr>DS_DNSZoneName = StringNull, DS_DefaultSubdomain = StringNull, DS_Id = StringNull\<rparr>"

definition DeploymentDataSource_Read ::
  "DeploymentServiceClient option \<Rightarrow> DeploymentDataSourceModel DataSourceReadRequest
     \<Rightarrow> DeploymentDataSourceModel Response \<Rightarrow> DeploymentDataSourceModel result" where
  "DeploymentDataSource_Read client req resp0 =
     (let (diags, data) = Get (Read_Config req) DeploymentDataSourceModel_zero;
          resp = Diagnostics_Append resp0 diags
      in if HasError (Diagnostics resp) then (Returned resp, [])
      else
      (case client of
         None \<Rightarrow> (NilDereference, [])
       | Some c \<Rightarrow>
          (let (apiRes, err) = GetDeployment c () in
           (case err of
              Some e \<Rightarrow>
                (Returned (Diagnostics_AddError ''Client Error''
                   (''Unable to read Common Fate deployment metadata, got error: '' @ Error e)
                   resp),
                 [Call_GetDeployment])
            | None \<Rightarrow>
                (case apiRes of
                   None \<Rightarrow> (NilDereference, [Call_GetDeployment])
                 | Some msg \<Rightarrow>
                     (case Got_Deployment msg of
                        None \<Rightarrow> (NilDereference, [Call_GetDeployment])
                      | Some deployment \<Rightarrow>
                          let data = data\<lparr>DS_Id := StringValue (Deployment_Id deployment)\<rparr>;
                              data = data\<lparr>DS_DNSZoneName :=
                                       StringValue (Deployment_DnsZoneName deployment)\<rparr>;
                              data = data\<lparr>DS_DefaultSubdomain :=
                                       StringValue (Deployment_DefaultSubdomain deployment)\<rparr>;
                              (resp, diags) = State_Set data resp;
                              resp = Diagnostics_Append resp diags
                          in (Returned resp, [Call_GetDeployment])))))))"

section \<open>Observing an operation; example clients and records\<close>

text \<open>
  The branch an operation took, without the text of its diagnostics: whether it
  returned, the state it left, whether it reported an error, the summaries of its
  diagnostics, and the calls it made.
\<close>

definition branch ::
  "'m result \<Rightarrow> ('m tfsdk_data \<times> bool \<times> string set) option \<times> rpc list" where
  "branch r =
     (case fst r of
        Returned resp \<Rightarrow>
          Some (State resp, HasError (Diagnostics resp), Summary ` set (Diagnostics resp))
      | NilDereference \<Rightarrow> None,
      snd r)"

text \<open>A deployment service whose every call fails with the given error.\<close>

definition failing_client :: "error \<Rightarrow> DeploymentServiceClient" where
  "failing_client e =
     \<lparr>CreateDNSRecord = (\<lambda>rq. (None, Some e)),
      GetDNSRecord = (\<lambda>rq. (None, Some e)),
      UpdateDNSRecord = (\<lambda>rq. (None, Some e)),
      DeleteDNSRecord = (\<lambda>rq. (None, Some e)),
      RegisterAWSACMCertificate = (\<lambda>rq. (None, Some e)),
      GetAWSACMCertificate = (\<lambda>rq. (None, Some e)),
      UpdateAWSACMCertificate = (\<lambda>rq. (None, Some e)),
      DeregisterAWSACMCertificate = (\<lambda>rq. (None, Some e)),
      RegisterNameservers = (\<lambda>rq. (None, Some e)),
      GetDeployment = (\<lambda>rq. (None, Some e)),
      SetTerraformOutput = (\<lambda>rq. (None, Some e)),
      GetTerraformOutput = (\<lambda>rq. (None, Some e))\<rparr>"

definition failing_tokens :: "error \<Rightarrow> MonitoringClient" where
  "failing_tokens e =
     \<lparr>CreateWriteToken = (\<lambda>rq. (None, Some e)),
      GetWriteToken = (\<lambda>rq. (None, Some e))\<rparr>"

text \<open>A deployment service whose every call succeeds.\<close>

definition answering_client :: DeploymentServiceClient where
  "answering_client =
     \<lparr>CreateDNSRecord = (\<lambda>rq.
        (Some \<lparr>Created = Some \<lparr>DNSRecord_Id = ''dns-1'',
                                DNSRecord_Values = CreateDNS_Values rq\<rparr>\<rparr>, None)),
      GetDNSRecord = (\<lambda>rq.
        (Some \<lparr>Record = Some \<lparr>DNSRecord_Id = GetDNS_Id rq,
                               DNSRecord_Values = [''other.example.com'']\<rparr>\<rparr>, None)),
      UpdateDNSRecord = (\<lambda>rq.
        (Some \<lparr>Updated = Some \<lparr>DNSRecord_Id = UpdateDNS_Id rq,
                                DNSRecord_Values = UpdateDNS_Values rq\<rparr>\<rparr>, None)),
      DeleteDNSRecord = (\<lambda>rq. (Some (), None)),
      RegisterAWSACMCertificate = (\<lambda>rq.
        (Some \<lparr>Registered_Certificate = Some
           \<lparr>Cert_Id = ''cert-1'', Cert_Arn = Register_Arn rq,
            Cert_DomainName = Register_DomainName rq,
            Cert_ValidationCnameName = Register_ValidationCnameName rq,
            Cert_ValidationCnameValue = Register_ValidationCnameValue rq,
            Cert_Status = Register_Status rq\<rparr>\<rparr>, None)),
      GetAWSACMCertificate = (\<lambda>rq.
        (Some \<lparr>Got_Certificate = Some
           \<lparr>Cert_Id = GetCert_Id rq, Cert_Arn = ''arn:aws:acm:cert'',
            Cert_DomainName = ''www.example.com'',
            Cert_ValidationCnameName = ''_a.www.example.com'',
            Cert_ValidationCnameValue = ''_b.acm-validations.aws'',
            Cert_Status = ''ISSUED''\<rparr>\<rparr>, None)),
      UpdateAWSACMCertificate = (\<lambda>rq.
        (Some \<lparr>Updated_Certificate = Some (Update_Certificate rq)\<rparr>, None)),
      DeregisterAWSACMCertificate = (\<lambda>rq. (Some (), None)),
      RegisterNameservers = (\<lambda>rq. (Some (), None)),
      GetDeployment = (\<lambda>rq.
        (Some \<lparr>Got_Deployment = Some
           \<lparr>Deployment_Id = ''dep-1'', Deployment_DnsZoneName = ''example.com'',
            Deployment_DefaultSubdomain = ''dev'',
            Deployment_Nameservers = [''ns1.example.com'']\<rparr>\<rparr>, None)),
      SetTerraformOutput = (\<lambda>rq. (Some (), None)),
      GetTerraformOutput = (\<lambda>rq.
        (Some \<lparr>Got_Output = Some
           \<lparr>SamlSsoAcsUrl = ''https://auth.example.com/saml2/idpresponse'',
            SamlSsoEntityId = ''urn:amazon:cognito:sp:pool-1'',
            CognitoUserPoolId = ''pool-1'',
            DnsCnameRecordForAppDomain = ''app.example.com'',
            DnsCnameRecordForAuthDomain = ''auth.example.com'',
            WebClientId = ''web'', CliClientId = ''cli'',
            TerraformClientId = ''terraform'', ReadOnlyClientId = ''read-only'',
            ProvisionerClientId = ''provisioner'', VpcId = ''vpc-1''\<rparr>\<rparr>, None))\<rparr>"

text \<open>The same service, answering every get of a DNS record with a repeated value.\<close>

definition repeating_client :: DeploymentServiceClient where
  "repeating_client =
     answering_client\<lparr>GetDNSRecord := (\<lambda>rq.
        (Some \<lparr>Record = Some \<lparr>DNSRecord_Id = GetDNS_Id rq,
           DNSRecord_Values = [''a.example.com'', ''b.example.com'', ''a.example.com'']\<rparr>\<rparr>,
         None))\<rparr>"

definition not_found :: error where
  "not_found = ConnectError CodeNotFound ''no such record''"

definition unavailable :: error where
  "unavailable = ConnectError CodeUnavailable ''try again later''"

definition dns_example :: DNSRecordResourceModel where
  "dns_example =
     \<lparr>DNS_ID = StringValue ''dns-1'', DNS_Name = StringValue ''www'',
      DNS_Type = StringValue ''CNAME'', DNS_ZoneName = StringValue ''example.com'',
      DNS_Values = SetValue [StringValue ''target.example.com'']\<rparr>"

definition cert_example :: AWSACMCertificateResourceModel where
  "cert_example =
     \<lparr>ACM_ID = StringValue ''cert-1'', ACM_ARN = StringValue ''arn:aws:acm:old'',
      ACM_DomainName = StringValue ''old.example.com'',
      ACM_ValidationCNameName = StringValue ''_a.old.example.com'',
      ACM_ValidationCNameValue = StringValue ''_b.acm-validations.aws'',
      ACM_Status = StringValue ''PENDING_VALIDATION''\<rparr>"

definition ns_example :: NameserversResourceModel where
  "ns_example = \<lparr>NS_Records = SetValue [StringValue ''ns1.example.com'']\<rparr>"

definition token_example :: MonitoringWriteTokenResourceModel where
  "token_example = \<lparr>Token_ID = StringValue ''tok-1'', Token_Token = StringValue ''secret''\<rparr>"

definition output_example :: TerraformOutputResourceModel where
  "output_example =
     \<lparr>SAMLSSOACSURL = StringValue ''https://auth.example.com/saml2/idpresponse'',
      SAMLSSOEntityID = StringValue ''urn:amazon:cognito:sp:pool-1'',
      CognitoUserPoolID = StringValue ''pool-1'',
      DNSCNAMERecordForAppDomain = StringValue ''app.example.com'',
      DNSCNAMERecordForAuthDomain = StringValue ''auth.example.com'',
      WebClientID = StringValue ''web'', CLIClientID = StringValue ''cli'',
      TerraformClientID = StringValue ''terraform'',
      ReadOnlyClientID = StringValue ''read-only'',
      ProvisionerClientID = StringValue ''provisioner'',
      VPCID = StringValue ''vpc-1''\<rparr>"

definition deployment_example :: DeploymentDataSourceModel where
  "deployment_example =
     \<lparr>DS_DNSZoneName = StringNull, DS_DefaultSubdomain = StringNull, DS_Id = StringNull\<rparr>"

text \<open>A response that holds the given state and no diagnostic.\<close>

definition holding :: "'m tfsdk_data \<Rightarrow> 'm Response" where
  "holding st = \<lparr>State = st, Diagnostics = []\<rparr>"

text \<open>
  An operation was rejected and kept the state: it returned, its diagnostics hold an
  error, and the state of the response is the one the response came in with.
\<close>

definition rejected_keeping_state :: "'m Response \<Rightarrow> 'm result \<Rightarrow> bool" where
  "rejected_keeping_state resp0 r =
     (case fst r of
        Returned resp \<Rightarrow> HasError (Diagnostics resp) \<and> State resp = State resp0
      | NilDereference \<Rightarrow> False)"

section \<open>Diagnostics: basic facts\<close>

lemma set_Append: "set (Append diags ds) = set diags \<union> set ds"
  by (induction ds arbitrary: diags) auto

lemma HasError_iff: "HasError diags \<longleftrightarrow> (\<exists>d\<in>set diags. Severity d = SeverityError)"
  by (simp add: HasError_def list_ex_iff)

lemma HasError_Append: "HasError (Append diags ds) \<longleftrightarrow> HasError diags \<or> HasError ds"
  by (auto simp: HasError_iff set_Append)

lemma HasError_AddError: "HasError (AddError summary detail diags)"
  unfolding AddError_def HasError_Append
  by (simp add: HasError_def NewErrorDiagnostic_def)

lemma set_AddError:
  "set (AddError summary detail diags) = insert (NewErrorDiagnostic summary detail) (set diags)"
  unfolding AddError_def set_Append by simp

lemma Diagnostics_Append_Nil: "Diagnostics_Append resp [] = resp"
  by (simp add: Diagnostics_Append_def)

lemma State_Diagnostics_Append: "State (Diagnostics_Append resp ds) = State resp"
  by (simp add: Diagnostics_Append_def)

lemma State_Diagnostics_AddError: "State (Diagnostics_AddError s d resp) = State resp"
  by (simp add: Diagnostics_AddError_def)

lemma HasError_Diagnostics_AddError: "HasError (Diagnostics (Diagnostics_AddError s d resp))"
  by (simp add: Diagnostics_AddError_def HasError_AddError)

lemma Get_Object: "Get (Object m) target = ([], m)"
  by (simp add: Get_def)

lemma branch_AddError:
  "branch (Returned (Diagnostics_AddError s d1 resp), calls) =
   branch (Returned (Diagnostics_AddError s d2 resp), calls)"
  by (simp add: branch_def HasError_Diagnostics_AddError State_Diagnostics_AddError)
     (simp add: Diagnostics_AddError_def set_AddError NewErrorDiagnostic_def)

section \<open>The claims\<close>

lemma SetValueFrom_distinct: "distinct elems \<Longrightarrow> snd (SetValueFrom elems) = []"
  by (simp add: SetValueFrom_def)

lemma SetValueFrom_repeated:
  "\<not> distinct elems \<Longrightarrow> SetValueFrom elems = (SetUnknown, [DuplicateSetElement])"
  by (auto simp: SetValueFrom_def)

lemma HasError_DuplicateSetElement:
  "HasError (Diagnostics (Diagnostics_Append resp [DuplicateSetElement]))"
proof -
  have "HasError [DuplicateSetElement]"
    by (simp add: HasError_def DuplicateSetElement_def NewErrorDiagnostic_def)
  then have "HasError (Append (Diagnostics resp) [DuplicateSetElement])"
    unfolding HasError_Append by (rule disjI2)
  then show ?thesis
    by (simp add: Diagnostics_Append_def del: Append.simps)
qed

text \<open>
  C1 (amended). The provider registers two of the six kinds: \<open>Resources\<close> returns one
  constructor, which builds the nameserver set resource, and \<open>DataSources\<close> returns one
  constructor, which builds the deployment metadata data source. The constructors of the
  DNS record, the AWS certificate record, the monitoring write token and the output
  bundle exist and are not registered.
\<close>

theorem provider_registers_nameservers_and_deployment:
  "map (\<lambda>new. new ()) Resources = [NameserversResource None] \<and>
   map (\<lambda>new. new ()) DataSources = [DeploymentDataSource None]"
  by (simp add: Resources_def DataSources_def NewNameserversResource_def
        NewDeploymentDataSource_def)

text \<open>
  C1 as stated fails: no constructor that \<open>Resources\<close> returns builds a DNS record
  resource.
\<close>

theorem dns_record_not_registered:
  "\<not> (\<exists>new\<in>set Resources. \<exists>client. new () = DNSRecordResource client)"
  by (simp add: Resources_def NewNameserversResource_def)

text \<open>
  C2 (amended). For the DNS record and the AWS certificate record, with a prior state
  that reads without error: when the get call fails with the code \<open>NotFound\<close>, \<open>Read\<close>
  removes the state and adds no diagnostic; when the get call succeeds and carries the
  record, \<open>Read\<close> writes the state, for the certificate with all six fields from the
  observed record, for the DNS record, when no value of the observed record is repeated,
  with the identifier and the values from the observed record and the name, type and
  zone of the prior state. When a value of the observed DNS record is repeated, \<open>Read\<close>
  reports the error \<open>Duplicate Set Element\<close> and writes no state. The \<open>Read\<close> of the
  monitoring write token makes no remote call and leaves the state as it was: it only
  appends the diagnostics of reading the prior state.
\<close>

theorem read_refreshes_or_removes_state:
  "(\<not> HasError (Diagnostics rd) \<and>
      CodeOf (snd (GetDNSRecord cA \<lparr>GetDNS_Id = ValueString (DNS_ID d)\<rparr>)) = CodeNotFound \<longrightarrow>
      DNSRecordResource_Read (Some cA) \<lparr>Read_State = Object d\<rparr> rd =
        (Returned (rd\<lparr>State := Null\<rparr>),
         [Call_GetDNSRecord \<lparr>GetDNS_Id = ValueString (DNS_ID d)\<rparr>])) \<and>
   (\<not> HasError (Diagnostics rd) \<and>
      GetDNSRecord cB \<lparr>GetDNS_Id = ValueString (DNS_ID d)\<rparr> =
        (Some \<lparr>Record = Some observed\<rparr>, None) \<and>
      distinct (DNSRecord_Values observed) \<longrightarrow>
      DNSRecordResource_Read (Some cB) \<lparr>Read_State = Object d\<rparr> rd =
        (Returned (rd\<lparr>State := Object
           (d\<lparr>DNS_ID := StringValue (DNSRecord_Id observed),
              DNS_Values := fst (SetValueFrom (DNSRecord_Values observed))\<rparr>)\<rparr>),
         [Call_GetDNSRecord \<lparr>GetDNS_Id = ValueString (DNS_ID d)\<rparr>])) \<and>
   (\<not> HasError (Diagnostics rd) \<and>
      GetDNSRecord cE \<lparr>GetDNS_Id = ValueString (DNS_ID d)\<rparr> =
        (Some \<lparr>Record = Some repeated\<rparr>, None) \<and>
      \<not> distinct (DNSRecord_Values repeated) \<longrightarrow>
      DNSRecordResource_Read (Some cE) \<lparr>Read_State = Object d\<rparr> rd =
        (Returned (Diagnostics_Append rd [DuplicateSetElement]),
         [Call_GetDNSRecord \<lparr>GetDNS_Id = ValueString (DNS_ID d)\<rparr>])) \<and>
   (\<not> HasError (Diagnostics ra) \<and>
      CodeOf (snd (GetAWSACMCertificate cC \<lparr>GetCert_Id = ValueString (ACM_ID a)\<rparr>))
        = CodeNotFound \<longrightarrow>
      AWSACMCertificateResource_Read (Some cC) \<lparr>Read_State = Object a\<rparr> ra =
        (Returned (ra\<lparr>State := Null\<rparr>),
         [Call_GetAWSACMCertificate \<lparr>GetCert_Id = ValueString (ACM_ID a)\<rparr>])) \<and>
   (\<not> HasError (Diagnostics ra) \<and>
      GetAWSACMCertificate cD \<lparr>GetCert_Id = ValueString (ACM_ID a)\<rparr> =
        (Some \<lparr>Got_Certificate = Some cert\<rparr>, None) \<longrightarrow>
      AWSACMCertificateResource_Read (Some cD) \<lparr>Read_State = Object a\<rparr> ra =
        (Returned (ra\<lparr>State := Object
           \<lparr>ACM_ID = StringValue (Cert_Id cert), ACM_ARN = StringValue (Cert_Arn cert),
            ACM_DomainName = StringValue (Cert_DomainName cert),
            ACM_ValidationCNameName = StringValue (Cert_ValidationCnameName cert),
            ACM_ValidationCNameValue = StringValue (Cert_ValidationCnameValue cert),
            ACM_Status = StringValue (Cert_Status cert)\<rparr>\<rparr>),
         [Call_GetAWSACMCertificate \<lparr>GetCert_Id = ValueString (ACM_ID a)\<rparr>])) \<and>
   MonitoringWriteTokenResource_Read ct rt pt =
     (Returned (Diagnostics_Append pt
        (fst (Get (Read_State rt) MonitoringWriteTokenResourceModel_zero))), [])"
proof (intro conjI impI)
  show "MonitoringWriteTokenResource_Read ct rt pt =
     (Returned (Diagnostics_Append pt
        (fst (Get (Read_State rt) MonitoringWriteTokenResourceModel_zero))), [])"
    by (simp add: MonitoringWriteTokenResource_Read_def case_prod_beta)
next
  assume "\<not> HasError (Diagnostics rd) \<and>
      CodeOf (snd (GetDNSRecord cA \<lparr>GetDNS_Id = ValueString (DNS_ID d)\<rparr>)) = CodeNotFound"
  then show "DNSRecordResource_Read (Some cA) \<lparr>Read_State = Object d\<rparr> rd =
        (Returned (rd\<lparr>State := Null\<rparr>),
         [Call_GetDNSRecord \<lparr>GetDNS_Id = ValueString (DNS_ID d)\<rparr>])"
    by (simp add: DNSRecordResource_Read_def Get_Object Diagnostics_Append_Nil
          State_RemoveResource_def case_prod_beta)
next
  assume "\<not> HasError (Diagnostics rd) \<and>
      GetDNSRecord cB \<lparr>GetDNS_Id = ValueString (DNS_ID d)\<rparr> =
        (Some \<lparr>Record = Some observed\<rparr>, None) \<and>
      distinct (DNSRecord_Values observed)"
  then show "DNSRecordResource_Read (Some cB) \<lparr>Read_State = Object d\<rparr> rd =
        (Returned (rd\<lparr>State := Object
           (d\<lparr>DNS_ID := StringValue (DNSRecord_Id observed),
              DNS_Values := fst (SetValueFrom (DNSRecord_Values observed))\<rparr>)\<rparr>),
         [Call_GetDNSRecord \<lparr>GetDNS_Id = ValueString (DNS_ID d)\<rparr>])"
    by (simp add: DNSRecordResource_Read_def Get_Object Diagnostics_Append_Nil
          State_Set_def SetValueFrom_distinct case_prod_beta)
next
  assume "\<not> HasError (Diagnostics rd) \<and>
      GetDNSRecord cE \<lparr>GetDNS_Id = ValueString (DNS_ID d)\<rparr> =
        (Some \<lparr>Record = Some repeated\<rparr>, None) \<and>
      \<not> distinct (DNSRecord_Values repeated)"
  then show "DNSRecordResource_Read (Some cE) \<lparr>Read_State = Object d\<rparr> rd =
        (Returned (Diagnostics_Append rd [DuplicateSetElement]),
         [Call_GetDNSRecord \<lparr>GetDNS_Id = ValueString (DNS_ID d)\<rparr>])"
    by (simp add: DNSRecordResource_Read_def Get_Object Diagnostics_Append_Nil
          SetValueFrom_repeated HasError_DuplicateSetElement del: Append.simps)
next
  assume "\<not> HasError (Diagnostics ra) \<and>
      CodeOf (snd (GetAWSACMCertificate cC \<lparr>GetCert_Id = ValueString (ACM_ID a)\<rparr>))
        = CodeNotFound"
  then show "AWSACMCertificateResource_Read (Some cC) \<lparr>Read_State = Object a\<rparr> ra =
        (Returned (ra\<lparr>State := Null\<rparr>),
         [Call_GetAWSACMCertificate \<lparr>GetCert_Id = ValueString (ACM_ID a)\<rparr>])"
    by (simp add: AWSACMCertificateResource_Read_def Get_Object Diagnostics_Append_Nil
          State_RemoveResource_def case_prod_beta)
next
  assume "\<not> HasError (Diagnostics ra) \<and>
      GetAWSACMCertificate cD \<lparr>GetCert_Id = ValueString (ACM_ID a)\<rparr> =
        (Some \<lparr>Got_Certificate = Some cert\<rparr>, None)"
  then show "AWSACMCertificateResource_Read (Some cD) \<lparr>Read_State = Object a\<rparr> ra =
        (Returned (ra\<lparr>State := Object
           \<lparr>ACM_ID = StringValue (Cert_Id cert), ACM_ARN = StringValue (Cert_Arn cert),
            ACM_DomainName = StringValue (Cert_DomainName cert),
            ACM_ValidationCNameName = StringValue (Cert_ValidationCnameName cert),
            ACM_ValidationCNameValue = StringValue (Cert_ValidationCnameValue cert),
            ACM_Status = StringValue (Cert_Status cert)\<rparr>\<rparr>),
         [Call_GetAWSACMCertificate \<lparr>GetCert_Id = ValueString (ACM_ID a)\<rparr>])"
    by (simp add: AWSACMCertificateResource_Read_def Get_Object Diagnostics_Append_Nil
          State_Set_def case_prod_beta)
qed

text \<open>
  The reads of the DNS record \<open>dns-1\<close> and of the certificate \<open>cert-1\<close>, against a
  service that answers \<open>NotFound\<close>, against one that answers with a record, and
  against one that answers with a DNS record that repeats a value.
\<close>

theorem read_refreshes_or_removes_state_witness:
  "DNSRecordResource_Read (Some (failing_client not_found))
     \<lparr>Read_State = Object dns_example\<rparr> (holding (Object dns_example)) =
     (Returned (holding Null), [Call_GetDNSRecord \<lparr>GetDNS_Id = ''dns-1''\<rparr>]) \<and>
   DNSRecordResource_Read (Some answering_client)
     \<lparr>Read_State = Object dns_example\<rparr> (holding (Object dns_example)) =
     (Returned (holding (Object (dns_example
        \<lparr>DNS_Values := SetValue [StringValue ''other.example.com'']\<rparr>))),
      [Call_GetDNSRecord \<lparr>GetDNS_Id = ''dns-1''\<rparr>]) \<and>
   DNSRecordResource_Read (Some repeating_client)
     \<lparr>Read_State = Object dns_example\<rparr> (holding (Object dns_example)) =
     (Returned \<lparr>State = Object dns_example, Diagnostics = [DuplicateSetElement]\<rparr>,
      [Call_GetDNSRecord \<lparr>GetDNS_Id = ''dns-1''\<rparr>]) \<and>
   AWSACMCertificateResource_Read (Some (failing_client not_found))
     \<lparr>Read_State = Object cert_example\<rparr> (holding (Object cert_example)) =
     (Returned (holding Null), [Call_GetAWSACMCertificate \<lparr>GetCert_Id = ''cert-1''\<rparr>]) \<and>
   AWSACMCertificateResource_Read (Some answering_client)
     \<lparr>Read_State = Object cert_example\<rparr> (holding (Object cert_example)) =
     (Returned (holding (Object
        \<lparr>ACM_ID = StringValue ''cert-1'', ACM_ARN = StringValue ''arn:aws:acm:cert'',
         ACM_DomainName = StringValue ''www.example.com'',
         ACM_ValidationCNameName = StringValue ''_a.www.example.com'',
         ACM_ValidationCNameValue = StringValue ''_b.acm-validations.aws'',
         ACM_Status = StringValue ''ISSUED''\<rparr>)),
      [Call_GetAWSACMCertificate \<lparr>GetCert_Id = ''cert-1''\<rparr>])"
  using read_refreshes_or_removes_state
    [where rd = "holding (Object dns_example)" and d = dns_example
       and cA = "failing_client not_found" and cB = answering_client
       and observed = "\<lparr>DNSRecord_Id = ''dns-1'', DNSRecord_Values = [''other.example.com'']\<rparr>"
       and cE = repeating_client
       and repeated = "\<lparr>DNSRecord_Id = ''dns-1'',
            DNSRecord_Values = [''a.example.com'', ''b.example.com'', ''a.example.com'']\<rparr>"
       and ra = "holding (Object cert_example)" and a = cert_example
       and cC = "failing_client not_found" and cD = answering_client
       and cert = "\<lparr>Cert_Id = ''cert-1'', Cert_Arn = ''arn:aws:acm:cert'',
            Cert_DomainName = ''www.example.com'',
            Cert_ValidationCnameName = ''_a.www.example.com'',
            Cert_ValidationCnameValue = ''_b.acm-validations.aws'',
            Cert_Status = ''ISSUED''\<rparr>"]
  by (simp add: holding_def HasError_def failing_client_def answering_client_def
        repeating_client_def not_found_def dns_example_def cert_example_def
        SetValueFrom_def Diagnostics_Append_def)

text \<open>
  C2 as stated fails for the monitoring write token, a kind with an identifier: with a
  token service that answers \<open>NotFound\<close> to every call, \<open>Read\<close> returns the prior state and
  makes no call.
\<close>

theorem token_read_keeps_state_of_missing_token:
  "MonitoringWriteTokenResource_Read (Some (failing_tokens not_found))
     \<lparr>Read_State = Object token_example\<rparr> (holding (Object token_example)) =
   (Returned (holding (Object token_example)), [])"
  by (simp add: MonitoringWriteTokenResource_Read_def Get_Object Diagnostics_Append_Nil
        case_prod_beta)

text \<open>
  C3, at the input where the code departs from it: the delete call of a DNS record
  fails with the code \<open>NotFound\<close>, and \<open>Delete\<close> reports an error.
\<close>

theorem dns_delete_reports_not_found_as_error:
  "DNSRecordResource_Delete (Some (failing_client not_found))
     \<lparr>Delete_State = Object dns_example\<rparr> (holding (Object dns_example)) =
   (Returned
      \<lparr>State = Object dns_example,
       Diagnostics = [NewErrorDiagnostic ''Common Fate Deployment API error''
         ''Unable to delete DNS record for the deployment, got error: not_found: no such record'']\<rparr>,
    [Call_DeleteDNSRecord \<lparr>DeleteDNS_Id = ''dns-1''\<rparr>])"
  by (simp add: DNSRecordResource_Delete_def Get_Object Diagnostics_Append_Nil
        holding_def HasError_def ElementsAs_def dns_example_def failing_client_def
        not_found_def Diagnostics_AddError_def AddError_def)

text \<open>
  The certificate's \<open>Delete\<close> does what C3 says: with a prior state that reads without
  error, \<open>NotFound\<close> leaves the response as it was, and any other failure adds an error.
\<close>

lemma acm_delete_classifies:
  assumes "snd (DeregisterAWSACMCertificate c \<lparr>Deregister_Id = ValueString (ACM_ID a)\<rparr>) = Some e"
  shows "AWSACMCertificateResource_Delete (Some c) \<lparr>Delete_State = Object a\<rparr> resp =
     (Returned (if CodeOf (Some e) = CodeNotFound then resp
                else Diagnostics_AddError ''Common Fate Deployment API error''
                  (''Unable to delete ACM certificate for the deployment, got error: ''
                     @ Error e) resp),
      [Call_DeregisterAWSACMCertificate \<lparr>Deregister_Id = ValueString (ACM_ID a)\<rparr>])"
  using assms
  by (simp add: AWSACMCertificateResource_Delete_def Get_Object Diagnostics_Append_Nil
        case_prod_beta)

text \<open>
  C4. For the nameserver set, the monitoring write token and the output bundle,
  \<open>Delete\<close> returns the response as it came in, so with no diagnostic added, and makes
  no remote call, whatever the client, the request and the prior state.
\<close>

theorem noop_delete_makes_no_call:
  "NameserversResource_Delete cn rn pn = (Returned pn, []) \<and>
   MonitoringWriteTokenResource_Delete ct rt pt = (Returned pt, []) \<and>
   TerraformOutputResource_Delete co ro po = (Returned po, [])"
  by (simp add: NameserversResource_Delete_def MonitoringWriteTokenResource_Delete_def
        TerraformOutputResource_Delete_def)

text \<open>
  C5. For the nameserver set and the output bundle, \<open>Update\<close> on a plan does what
  \<open>Create\<close> does on it: given the same response to fill, both make the same call with
  the same request (register nameservers, set output; no other call), and return the
  same response. Started from different states, as the framework starts them (the prior
  state for \<open>Update\<close>, none for \<open>Create\<close>), both make the same calls and report the same
  diagnostics, and either both end with the same state or both failed with an error and
  kept the state they started from.
\<close>

theorem update_resends_create:
  "NameserversResource_Update cn \<lparr>Update_Plan = pn, Update_State = sn\<rparr> rn =
     NameserversResource_Create cn \<lparr>Create_Plan = pn\<rparr> rn \<and>
   list_all (\<lambda>call. case call of Call_RegisterNameservers rq \<Rightarrow> True | _ \<Rightarrow> False)
     (snd (NameserversResource_Update cn un tn)) \<and>
   (let u = NameserversResource_Update cn \<lparr>Update_Plan = pn, Update_State = sn\<rparr>
              \<lparr>State = sn, Diagnostics = dn\<rparr>;
        c = NameserversResource_Create cn \<lparr>Create_Plan = pn\<rparr>
              \<lparr>State = Null, Diagnostics = dn\<rparr>
    in snd u = snd c \<and>
       (case (fst u, fst c) of
          (Returned x, Returned y) \<Rightarrow>
            Diagnostics x = Diagnostics y \<and>
            (State x = State y \<or> HasError (Diagnostics x) \<and> State x = sn \<and> State y = Null)
        | (NilDereference, NilDereference) \<Rightarrow> True
        | _ \<Rightarrow> False)) \<and>
   TerraformOutputResource_Update co \<lparr>Update_Plan = po, Update_State = so\<rparr> ro =
     TerraformOutputResource_Create co \<lparr>Create_Plan = po\<rparr> ro \<and>
   list_all (\<lambda>call. case call of Call_SetTerraformOutput rq \<Rightarrow> True | _ \<Rightarrow> False)
     (snd (TerraformOutputResource_Update co uo to)) \<and>
   (let u = TerraformOutputResource_Update co \<lparr>Update_Plan = po, Update_State = so\<rparr>
              \<lparr>State = so, Diagnostics = do\<rparr>;
        c = TerraformOutputResource_Create co \<lparr>Create_Plan = po\<rparr>
              \<lparr>State = Null, Diagnostics = do\<rparr>
    in snd u = snd c \<and>
       (case (fst u, fst c) of
          (Returned x, Returned y) \<Rightarrow>
            Diagnostics x = Diagnostics y \<and>
            (State x = State y \<or> HasError (Diagnostics x) \<and> State x = so \<and> State y = Null)
        | (NilDereference, NilDereference) \<Rightarrow> True
        | _ \<Rightarrow> False))"
proof (intro conjI)
  show "NameserversResource_Update cn \<lparr>Update_Plan = pn, Update_State = sn\<rparr> rn =
     NameserversResource_Create cn \<lparr>Create_Plan = pn\<rparr> rn"
    by (simp add: NameserversResource_Update_def NameserversResource_Create_def)
  show "TerraformOutputResource_Update co \<lparr>Update_Plan = po, Update_State = so\<rparr> ro =
     TerraformOutputResource_Create co \<lparr>Create_Plan = po\<rparr> ro"
    by (simp add: TerraformOutputResource_Update_def TerraformOutputResource_Create_def)
  show "list_all (\<lambda>call. case call of Call_RegisterNameservers rq \<Rightarrow> True | _ \<Rightarrow> False)
     (snd (NameserversResource_Update cn un tn))"
    by (simp add: NameserversResource_Update_def case_prod_beta Let_def
          split: option.splits)
  show "list_all (\<lambda>call. case call of Call_SetTerraformOutput rq \<Rightarrow> True | _ \<Rightarrow> False)
     (snd (TerraformOutputResource_Update co uo to))"
    by (simp add: TerraformOutputResource_Update_def case_prod_beta Let_def
          split: option.splits)
  show "let u = NameserversResource_Update cn \<lparr>Update_Plan = pn, Update_State = sn\<rparr>
              \<lparr>State = sn, Diagnostics = dn\<rparr>;
        c = NameserversResource_Create cn \<lparr>Create_Plan = pn\<rparr>
              \<lparr>State = Null, Diagnostics = dn\<rparr>
    in snd u = snd c \<and>
       (case (fst u, fst c) of
          (Returned x, Returned y) \<Rightarrow>
            Diagnostics x = Diagnostics y \<and>
            (State x = State y \<or> HasError (Diagnostics x) \<and> State x = sn \<and> State y = Null)
        | (NilDereference, NilDereference) \<Rightarrow> True
        | _ \<Rightarrow> False)"
    by (simp add: NameserversResource_Update_def NameserversResource_Create_def
          case_prod_beta Let_def Diagnostics_Append_def Diagnostics_AddError_def
          State_Set_def HasError_AddError split: option.splits)
  show "let u = TerraformOutputResource_Update co \<lparr>Update_Plan = po, Update_State = so\<rparr>
              \<lparr>State = so, Diagnostics = do\<rparr>;
        c = TerraformOutputResource_Create co \<lparr>Create_Plan = po\<rparr>
              \<lparr>State = Null, Diagnostics = do\<rparr>
    in snd u = snd c \<and>
       (case (fst u, fst c) of
          (Returned x, Returned y) \<Rightarrow>
            Diagnostics x = Diagnostics y \<and>
            (State x = State y \<or> HasError (Diagnostics x) \<and> State x = so \<and> State y = Null)
        | (NilDereference, NilDereference) \<Rightarrow> True
        | _ \<Rightarrow> False)"
    by (simp add: TerraformOutputResource_Update_def TerraformOutputResource_Create_def
          case_prod_beta Let_def Diagnostics_Append_def Diagnostics_AddError_def
          State_Set_def HasError_AddError split: option.splits)
qed

text \<open>
  An update of the nameserver set that changes \<open>ns1\<close> to \<open>ns2\<close>, and the creation of
  \<open>ns2\<close>: one register call each, with the same request, and the same state written.
  An update of the output bundle that changes the VPC: the plan becomes the state.
\<close>

theorem update_resends_create_witness:
  "NameserversResource_Update (Some answering_client)
     \<lparr>Update_Plan = Object \<lparr>NS_Records = SetValue [StringValue ''ns2.example.com'']\<rparr>,
      Update_State = Object ns_example\<rparr>
     \<lparr>State = Object ns_example, Diagnostics = []\<rparr> =
   (Returned \<lparr>State = Object \<lparr>NS_Records = SetValue [StringValue ''ns2.example.com'']\<rparr>,
              Diagnostics = []\<rparr>,
    [Call_RegisterNameservers \<lparr>Nameservers = [''ns2.example.com'']\<rparr>]) \<and>
   NameserversResource_Create (Some answering_client)
     \<lparr>Create_Plan = Object \<lparr>NS_Records = SetValue [StringValue ''ns2.example.com'']\<rparr>\<rparr>
     \<lparr>State = Null, Diagnostics = []\<rparr> =
   (Returned \<lparr>State = Object \<lparr>NS_Records = SetValue [StringValue ''ns2.example.com'']\<rparr>,
              Diagnostics = []\<rparr>,
    [Call_RegisterNameservers \<lparr>Nameservers = [''ns2.example.com'']\<rparr>]) \<and>
   fst (TerraformOutputResource_Update (Some answering_client)
          \<lparr>Update_Plan = Object output_example,
           Update_State = Object (output_example\<lparr>VPCID := StringValue ''vpc-0''\<rparr>)\<rparr>
          \<lparr>State = Object (output_example\<lparr>VPCID := StringValue ''vpc-0''\<rparr>),
           Diagnostics = []\<rparr>) =
     Returned \<lparr>State = Object output_example, Diagnostics = []\<rparr> \<and>
   fst (TerraformOutputResource_Create (Some answering_client)
          \<lparr>Create_Plan = Object output_example\<rparr> \<lparr>State = Null, Diagnostics = []\<rparr>) =
     Returned \<lparr>State = Object output_example, Diagnostics = []\<rparr>"
  using update_resends_create
    [where cn = "Some answering_client" and sn = "Object ns_example" and dn = "[]"
       and pn = "Object \<lparr>NS_Records = SetValue [StringValue ''ns2.example.com'']\<rparr>"
       and co = "Some answering_client" and po = "Object output_example"]
  by (simp add: NameserversResource_Update_def NameserversResource_Create_def
        TerraformOutputResource_Update_def TerraformOutputResource_Create_def Get_Object
        Diagnostics_Append_Nil HasError_def ElementsAs_def answering_client_def
        State_Set_def)

text \<open>
  C6 (amended). The \<open>Update\<close> of the monitoring write token makes no remote call and
  returns the response as it came in, with the prior state and no diagnostic added,
  whatever the plan: a plan whose token value differs from the prior state is ignored,
  not rejected.
\<close>

theorem token_update_is_noop:
  "MonitoringWriteTokenResource_Update client req resp = (Returned resp, [])"
  by (simp add: MonitoringWriteTokenResource_Update_def)

text \<open>
  C6 as stated fails: the plan changes the token value \<open>secret\<close> of the prior state, and
  \<open>Update\<close> returns without any diagnostic.
\<close>

theorem token_update_accepts_changed_token:
  "MonitoringWriteTokenResource_Update (Some (failing_tokens unavailable))
     \<lparr>Update_Plan = Object \<lparr>Token_ID = StringValue ''tok-1'',
                              Token_Token = StringValue ''changed''\<rparr>,
      Update_State = Object \<lparr>Token_ID = StringValue ''tok-1'',
                               Token_Token = StringValue ''secret''\<rparr>\<rparr>
     \<lparr>State = Object \<lparr>Token_ID = StringValue ''tok-1'',
                        Token_Token = StringValue ''secret''\<rparr>,
      Diagnostics = []\<rparr> =
   (Returned \<lparr>State = Object \<lparr>Token_ID = StringValue ''tok-1'',
                                Token_Token = StringValue ''secret''\<rparr>,
              Diagnostics = []\<rparr>, [])"
  by (simp add: MonitoringWriteTokenResource_Update_def)

text \<open>
  C7, at the input where the code departs from it: the prior state of a certificate
  does not convert to the model, reading it reports an error, and \<open>Delete\<close> still calls
  the service, with the identifier of the zero value.
\<close>

theorem acm_delete_calls_service_after_unreadable_state:
  "AWSACMCertificateResource_Delete (Some answering_client)
     \<lparr>Delete_State = Mismatch\<rparr> \<lparr>State = Mismatch, Diagnostics = []\<rparr> =
   (Returned \<lparr>State = Mismatch, Diagnostics = [ConversionError]\<rparr>,
    [Call_DeregisterAWSACMCertificate \<lparr>Deregister_Id = []\<rparr>])"
  by (simp add: AWSACMCertificateResource_Delete_def Get_def Diagnostics_Append_def
        AWSACMCertificateResourceModel_zero_def answering_client_def)

text \<open>
  Every other operation that reads its input stops there when the input does not
  convert to the model: it makes no call.
\<close>

lemma Get_unreadable:
  assumes "\<And>m. raw \<noteq> Object m"
  shows "HasError (Diagnostics (Diagnostics_Append resp (fst (Get raw target))))"
proof -
  have unreadable: "fst (Get raw target) = [ConversionError]"
    using assms by (cases raw) (auto simp: Get_def)
  have "HasError [ConversionError]"
    by (simp add: HasError_def ConversionError_def NewErrorDiagnostic_def)
  then have "HasError (Append (Diagnostics resp) [ConversionError])"
    unfolding HasError_Append by (rule disjI2)
  then show ?thesis
    by (simp add: Diagnostics_Append_def unreadable del: Append.simps)
qed

lemma dns_unreadable_input_no_call:
  assumes "\<And>m. raw \<noteq> Object m"
  shows "snd (DNSRecordResource_Create c \<lparr>Create_Plan = raw\<rparr> resp) = []"
    and "snd (DNSRecordResource_Read c \<lparr>Read_State = raw\<rparr> resp) = []"
    and "snd (DNSRecordResource_Update c \<lparr>Update_Plan = raw, Update_State = s\<rparr> resp) = []"
    and "snd (DNSRecordResource_Delete c \<lparr>Delete_State = raw\<rparr> resp) = []"
  by (simp_all add: Get_unreadable [OF assms] DNSRecordResource_Create_def DNSRecordResource_Read_def
        DNSRecordResource_Update_def DNSRecordResource_Delete_def case_prod_beta Let_def)

lemma acm_unreadable_input_no_call:
  assumes "\<And>m. raw \<noteq> Object m"
  shows "snd (AWSACMCertificateResource_Create c \<lparr>Create_Plan = raw\<rparr> resp) = []"
    and "snd (AWSACMCertificateResource_Read c \<lparr>Read_State = raw\<rparr> resp) = []"
    and "snd (AWSACMCertificateResource_Update c \<lparr>Update_Plan = raw, Update_State = s\<rparr> resp) = []"
  by (simp_all add: Get_unreadable [OF assms] AWSACMCertificateResource_Create_def AWSACMCertificateResource_Read_def
        AWSACMCertificateResource_Update_def case_prod_beta Let_def)

lemma nameservers_unreadable_input_no_call:
  assumes "\<And>m. raw \<noteq> Object m"
  shows "snd (NameserversResource_Create c \<lparr>Create_Plan = raw\<rparr> resp) = []"
    and "snd (NameserversResource_Read c \<lparr>Read_State = raw\<rparr> resp) = []"
    and "snd (NameserversResource_Update c \<lparr>Update_Plan = raw, Update_State = s\<rparr> resp) = []"
  by (simp_all add: Get_unreadable [OF assms] NameserversResource_Create_def NameserversResource_Read_def
        NameserversResource_Update_def case_prod_beta Let_def)

lemma output_unreadable_input_no_call:
  assumes "\<And>m. raw \<noteq> Object m"
  shows "snd (TerraformOutputResource_Create c \<lparr>Create_Plan = raw\<rparr> resp) = []"
    and "snd (TerraformOutputResource_Read c \<lparr>Read_State = raw\<rparr> resp) = []"
    and "snd (TerraformOutputResource_Update c \<lparr>Update_Plan = raw, Update_State = s\<rparr> resp) = []"
  by (simp_all add: Get_unreadable [OF assms] TerraformOutputResource_Create_def TerraformOutputResource_Read_def
        TerraformOutputResource_Update_def case_prod_beta Let_def)

lemma token_and_deployment_unreadable_input_no_call:
  assumes "\<And>m. raw \<noteq> Object m" and "\<And>m. cfg \<noteq> Object m"
  shows "snd (MonitoringWriteTokenResource_Create mc \<lparr>Create_Plan = raw\<rparr> resp) = []"
    and "snd (DeploymentDataSource_Read c \<lparr>Read_Config = cfg\<rparr> dresp) = []"
  by (simp_all add: Get_unreadable [OF assms(1)] Get_unreadable [OF assms(2)]
        MonitoringWriteTokenResource_Create_def DeploymentDataSource_Read_def
        case_prod_beta Let_def)

text \<open>
  C8. The branch an operation takes after a failed call depends on the error only
  through \<open>connect.CodeOf\<close>: for two errors with the same code, whatever their messages
  and whatever reply comes with them, every operation that calls the service ends the
  same way: same exit, same state, same calls, an error reported by both or by neither,
  diagnostics with the same summaries. Only the detail text of the diagnostic differs.
\<close>

theorem error_text_does_not_change_branch:
  assumes "CodeOf (Some e) = CodeOf (Some e')"
  shows
  "branch (DNSRecordResource_Create (Some (c\<lparr>CreateDNSRecord := \<lambda>rq. (ra, Some e)\<rparr>)) dc dp) =
   branch (DNSRecordResource_Create (Some (c\<lparr>CreateDNSRecord := \<lambda>rq. (ra', Some e')\<rparr>)) dc dp) \<and>
   branch (DNSRecordResource_Read (Some (c\<lparr>GetDNSRecord := \<lambda>rq. (rb, Some e)\<rparr>)) dr dp) =
   branch (DNSRecordResource_Read (Some (c\<lparr>GetDNSRecord := \<lambda>rq. (rb', Some e')\<rparr>)) dr dp) \<and>
   branch (DNSRecordResource_Update (Some (c\<lparr>UpdateDNSRecord := \<lambda>rq. (rc, Some e)\<rparr>)) du dp) =
   branch (DNSRecordResource_Update (Some (c\<lparr>UpdateDNSRecord := \<lambda>rq. (rc', Some e')\<rparr>)) du dp) \<and>
   branch (DNSRecordResource_Delete (Some (c\<lparr>DeleteDNSRecord := \<lambda>rq. (rd, Some e)\<rparr>)) dd dp) =
   branch (DNSRecordResource_Delete (Some (c\<lparr>DeleteDNSRecord := \<lambda>rq. (rd', Some e')\<rparr>)) dd dp) \<and>
   branch (AWSACMCertificateResource_Create
             (Some (c\<lparr>RegisterAWSACMCertificate := \<lambda>rq. (re, Some e)\<rparr>)) ac ap) =
   branch (AWSACMCertificateResource_Create
             (Some (c\<lparr>RegisterAWSACMCertificate := \<lambda>rq. (re', Some e')\<rparr>)) ac ap) \<and>
   branch (AWSACMCertificateResource_Read
             (Some (c\<lparr>GetAWSACMCertificate := \<lambda>rq. (rf, Some e)\<rparr>)) ar ap) =
   branch (AWSACMCertificateResource_Read
             (Some (c\<lparr>GetAWSACMCertificate := \<lambda>rq. (rf', Some e')\<rparr>)) ar ap) \<and>
   branch (AWSACMCertificateResource_Update
             (Some (c\<lparr>UpdateAWSACMCertificate := \<lambda>rq. (rg, Some e)\<rparr>)) au ap) =
   branch (AWSACMCertificateResource_Update
             (Some (c\<lparr>UpdateAWSACMCertificate := \<lambda>rq. (rg', Some e')\<rparr>)) au ap) \<and>
   branch (AWSACMCertificateResource_Delete
             (Some (c\<lparr>DeregisterAWSACMCertificate := \<lambda>rq. (rh, Some e)\<rparr>)) ad ap) =
   branch (AWSACMCertificateResource_Delete
             (Some (c\<lparr>DeregisterAWSACMCertificate := \<lambda>rq. (rh', Some e')\<rparr>)) ad ap) \<and>
   branch (NameserversResource_Create
             (Some (c\<lparr>RegisterNameservers := \<lambda>rq. (ri, Some e)\<rparr>)) nc np) =
   branch (NameserversResource_Create
             (Some (c\<lparr>RegisterNameservers := \<lambda>rq. (ri', Some e')\<rparr>)) nc np) \<and>
   branch (NameserversResource_Read (Some (c\<lparr>GetDeployment := \<lambda>rq. (rj, Some e)\<rparr>)) nr np) =
   branch (NameserversResource_Read (Some (c\<lparr>GetDeployment := \<lambda>rq. (rj', Some e')\<rparr>)) nr np) \<and>
   branch (NameserversResource_Update
             (Some (c\<lparr>RegisterNameservers := \<lambda>rq. (ri, Some e)\<rparr>)) nu np) =
   branch (NameserversResource_Update
             (Some (c\<lparr>RegisterNameservers := \<lambda>rq. (ri', Some e')\<rparr>)) nu np) \<and>
   branch (TerraformOutputResource_Create
             (Some (c\<lparr>SetTerraformOutput := \<lambda>rq. (rk, Some e)\<rparr>)) outc outp) =
   branch (TerraformOutputResource_Create
             (Some (c\<lparr>SetTerraformOutput := \<lambda>rq. (rk', Some e')\<rparr>)) outc outp) \<and>
   branch (TerraformOutputResource_Read
             (Some (c\<lparr>GetTerraformOutput := \<lambda>rq. (rl, Some e)\<rparr>)) outr outp) =
   branch (TerraformOutputResource_Read
             (Some (c\<lparr>GetTerraformOutput := \<lambda>rq. (rl', Some e')\<rparr>)) outr outp) \<and>
   branch (TerraformOutputResource_Update
             (Some (c\<lparr>SetTerraformOutput := \<lambda>rq. (rk, Some e)\<rparr>)) outu outp) =
   branch (TerraformOutputResource_Update
             (Some (c\<lparr>SetTerraformOutput := \<lambda>rq. (rk', Some e')\<rparr>)) outu outp) \<and>
   branch (MonitoringWriteTokenResource_Create
             (Some (m\<lparr>CreateWriteToken := \<lambda>rq. (rm, Some e)\<rparr>)) tc tp) =
   branch (MonitoringWriteTokenResource_Create
             (Some (m\<lparr>CreateWriteToken := \<lambda>rq. (rm', Some e')\<rparr>)) tc tp) \<and>
   branch (DeploymentDataSource_Read (Some (c\<lparr>GetDeployment := \<lambda>rq. (rj, Some e)\<rparr>)) sr sp) =
   branch (DeploymentDataSource_Read (Some (c\<lparr>GetDeployment := \<lambda>rq. (rj', Some e')\<rparr>)) sr sp)"
proof (intro conjI)
  show "branch (DNSRecordResource_Create (Some (c\<lparr>CreateDNSRecord := \<lambda>rq. (ra, Some e)\<rparr>)) dc dp) =
   branch (DNSRecordResource_Create (Some (c\<lparr>CreateDNSRecord := \<lambda>rq. (ra', Some e')\<rparr>)) dc dp)"
    by (simp add: DNSRecordResource_Create_def Let_def case_prod_beta branch_AddError)
  show "branch (DNSRecordResource_Read (Some (c\<lparr>GetDNSRecord := \<lambda>rq. (rb, Some e)\<rparr>)) dr dp) =
   branch (DNSRecordResource_Read (Some (c\<lparr>GetDNSRecord := \<lambda>rq. (rb', Some e')\<rparr>)) dr dp)"
    using assms
    by (simp add: DNSRecordResource_Read_def Let_def case_prod_beta branch_AddError)
  show "branch (DNSRecordResource_Update (Some (c\<lparr>UpdateDNSRecord := \<lambda>rq. (rc, Some e)\<rparr>)) du dp) =
   branch (DNSRecordResource_Update (Some (c\<lparr>UpdateDNSRecord := \<lambda>rq. (rc', Some e')\<rparr>)) du dp)"
    by (simp add: DNSRecordResource_Update_def Let_def case_prod_beta branch_AddError)
  show "branch (DNSRecordResource_Delete (Some (c\<lparr>DeleteDNSRecord := \<lambda>rq. (rd, Some e)\<rparr>)) dd dp) =
   branch (DNSRecordResource_Delete (Some (c\<lparr>DeleteDNSRecord := \<lambda>rq. (rd', Some e')\<rparr>)) dd dp)"
    by (simp add: DNSRecordResource_Delete_def Let_def case_prod_beta branch_AddError)
  show "branch (AWSACMCertificateResource_Create
             (Some (c\<lparr>RegisterAWSACMCertificate := \<lambda>rq. (re, Some e)\<rparr>)) ac ap) =
   branch (AWSACMCertificateResource_Create
             (Some (c\<lparr>RegisterAWSACMCertificate := \<lambda>rq. (re', Some e')\<rparr>)) ac ap)"
    by (simp add: AWSACMCertificateResource_Create_def Let_def case_prod_beta branch_AddError)
  show "branch (AWSACMCertificateResource_Read
             (Some (c\<lparr>GetAWSACMCertificate := \<lambda>rq. (rf, Some e)\<rparr>)) ar ap) =
   branch (AWSACMCertificateResource_Read
             (Some (c\<lparr>GetAWSACMCertificate := \<lambda>rq. (rf', Some e')\<rparr>)) ar ap)"
    using assms
    by (simp add: AWSACMCertificateResource_Read_def Let_def case_prod_beta branch_AddError)
  show "branch (AWSACMCertificateResource_Update
             (Some (c\<lparr>UpdateAWSACMCertificate := \<lambda>rq. (rg, Some e)\<rparr>)) au ap) =
   branch (AWSACMCertificateResource_Update
             (Some (c\<lparr>UpdateAWSACMCertificate := \<lambda>rq. (rg', Some e')\<rparr>)) au ap)"
    by (simp add: AWSACMCertificateResource_Update_def Let_def case_prod_beta branch_AddError)
  show "branch (AWSACMCertificateResource_Delete
             (Some (c\<lparr>DeregisterAWSACMCertificate := \<lambda>rq. (rh, Some e)\<rparr>)) ad ap) =
   branch (AWSACMCertificateResource_Delete
             (Some (c\<lparr>DeregisterAWSACMCertificate := \<lambda>rq. (rh', Some e')\<rparr>)) ad ap)"
    using assms
    by (simp add: AWSACMCertificateResource_Delete_def Let_def case_prod_beta branch_AddError)
  show "branch (NameserversResource_Create
             (Some (c\<lparr>RegisterNameservers := \<lambda>rq. (ri, Some e)\<rparr>)) nc np) =
   branch (NameserversResource_Create
             (Some (c\<lparr>RegisterNameservers := \<lambda>rq. (ri', Some e')\<rparr>)) nc np)"
    by (simp add: NameserversResource_Create_def Let_def case_prod_beta branch_AddError)
  show "branch (NameserversResource_Read (Some (c\<lparr>GetDeployment := \<lambda>rq. (rj, Some e)\<rparr>)) nr np) =
   branch (NameserversResource_Read (Some (c\<lparr>GetDeployment := \<lambda>rq. (rj', Some e')\<rparr>)) nr np)"
    using assms
    by (simp add: NameserversResource_Read_def Let_def case_prod_beta branch_AddError)
  show "branch (NameserversResource_Update
             (Some (c\<lparr>RegisterNameservers := \<lambda>rq. (ri, Some e)\<rparr>)) nu np) =
   branch (NameserversResource_Update
             (Some (c\<lparr>RegisterNameservers := \<lambda>rq. (ri', Some e')\<rparr>)) nu np)"
    by (simp add: NameserversResource_Update_def Let_def case_prod_beta branch_AddError)
  show "branch (TerraformOutputResource_Create
             (Some (c\<lparr>SetTerraformOutput := \<lambda>rq. (rk, Some e)\<rparr>)) outc outp) =
   branch (TerraformOutputResource_Create
             (Some (c\<lparr>SetTerraformOutput := \<lambda>rq. (rk', Some e')\<rparr>)) outc outp)"
    by (simp add: TerraformOutputResource_Create_def Let_def case_prod_beta branch_AddError)
  show "branch (TerraformOutputResource_Read
             (Some (c\<lparr>GetTerraformOutput := \<lambda>rq. (rl, Some e)\<rparr>)) outr outp) =
   branch (TerraformOutputResource_Read
             (Some (c\<lparr>GetTerraformOutput := \<lambda>rq. (rl', Some e')\<rparr>)) outr outp)"
    using assms
    by (simp add: TerraformOutputResource_Read_def Let_def case_prod_beta branch_AddError)
  show "branch (TerraformOutputResource_Update
             (Some (c\<lparr>SetTerraformOutput := \<lambda>rq. (rk, Some e)\<rparr>)) outu outp) =
   branch (TerraformOutputResource_Update
             (Some (c\<lparr>SetTerraformOutput := \<lambda>rq. (rk', Some e')\<rparr>)) outu outp)"
    by (simp add: TerraformOutputResource_Update_def Let_def case_prod_beta branch_AddError)
  show "branch (MonitoringWriteTokenResource_Create
             (Some (m\<lparr>CreateWriteToken := \<lambda>rq. (rm, Some e)\<rparr>)) tc tp) =
   branch (MonitoringWriteTokenResource_Create
             (Some (m\<lparr>CreateWriteToken := \<lambda>rq. (rm', Some e')\<rparr>)) tc tp)"
    by (simp add: MonitoringWriteTokenResource_Create_def Let_def case_prod_beta branch_AddError)
  show "branch (DeploymentDataSource_Read (Some (c\<lparr>GetDeployment := \<lambda>rq. (rj, Some e)\<rparr>)) sr sp) =
   branch (DeploymentDataSource_Read (Some (c\<lparr>GetDeployment := \<lambda>rq. (rj', Some e')\<rparr>)) sr sp)"
    by (simp add: DeploymentDataSource_Read_def Let_def case_prod_beta branch_AddError)
qed

text \<open>
  Two \<open>NotFound\<close> errors with different messages: the reads of the DNS record
  \<open>dns-1\<close> end the same way, with the state removed and no error reported.
\<close>

theorem error_text_does_not_change_branch_witness:
  "CodeOf (Some (ConnectError CodeNotFound ''record dns-1 does not exist'')) =
     CodeOf (Some not_found) \<and>
   branch (DNSRecordResource_Read
      (Some (answering_client\<lparr>GetDNSRecord :=
         \<lambda>rq. (None, Some (ConnectError CodeNotFound ''record dns-1 does not exist''))\<rparr>))
      \<lparr>Read_State = Object dns_example\<rparr> (holding (Object dns_example))) =
   branch (DNSRecordResource_Read
      (Some (answering_client\<lparr>GetDNSRecord := \<lambda>rq. (None, Some not_found)\<rparr>))
      \<lparr>Read_State = Object dns_example\<rparr> (holding (Object dns_example))) \<and>
   branch (DNSRecordResource_Read
      (Some (answering_client\<lparr>GetDNSRecord := \<lambda>rq. (None, Some not_found)\<rparr>))
      \<lparr>Read_State = Object dns_example\<rparr> (holding (Object dns_example))) =
     (Some (Null, False, {}), [Call_GetDNSRecord \<lparr>GetDNS_Id = ''dns-1''\<rparr>])"
proof -
  have same: "CodeOf (Some (ConnectError CodeNotFound ''record dns-1 does not exist'')) =
     CodeOf (Some not_found)"
    by (simp add: not_found_def)
  have "branch (DNSRecordResource_Read
      (Some (answering_client\<lparr>GetDNSRecord :=
         \<lambda>rq. (None, Some (ConnectError CodeNotFound ''record dns-1 does not exist''))\<rparr>))
      \<lparr>Read_State = Object dns_example\<rparr> (holding (Object dns_example))) =
   branch (DNSRecordResource_Read
      (Some (answering_client\<lparr>GetDNSRecord := \<lambda>rq. (None, Some not_found)\<rparr>))
      \<lparr>Read_State = Object dns_example\<rparr> (holding (Object dns_example)))"
    by (rule error_text_does_not_change_branch [OF same, THEN conjunct2, THEN conjunct1])
  moreover have "branch (DNSRecordResource_Read
      (Some (answering_client\<lparr>GetDNSRecord := \<lambda>rq. (None, Some not_found)\<rparr>))
      \<lparr>Read_State = Object dns_example\<rparr> (holding (Object dns_example))) =
     (Some (Null, False, {}), [Call_GetDNSRecord \<lparr>GetDNS_Id = ''dns-1''\<rparr>])"
    by (simp add: branch_def DNSRecordResource_Read_def Get_Object Diagnostics_Append_Nil
          holding_def HasError_def not_found_def dns_example_def State_RemoveResource_def)
  ultimately show ?thesis using same by simp
qed






















text \<open>
  C10. The \<open>Read\<close> of the deployment data source treats every failure of the get call
  as an error, \<open>NotFound\<close> included: it returns with an error diagnostic and the state it
  came in with, never a removed state; with a configuration that reads without error
  it adds the diagnostic \<open>Client Error\<close> after one call. On the same failure with the
  code \<open>NotFound\<close>, the \<open>Read\<close> of the nameserver set, which makes the same call,
  removes the state.
\<close>

theorem deployment_read_failure_is_error:
  assumes "snd (GetDeployment c ()) = Some e"
  shows
  "rejected_keeping_state resp (DeploymentDataSource_Read (Some c) req resp) \<and>
   (\<not> HasError (Diagnostics resp) \<longrightarrow>
      DeploymentDataSource_Read (Some c) \<lparr>Read_Config = Object cfg\<rparr> resp =
        (Returned (Diagnostics_AddError ''Client Error''
           (''Unable to read Common Fate deployment metadata, got error: '' @ Error e) resp),
         [Call_GetDeployment])) \<and>
   (CodeOf (Some e) = CodeNotFound \<and> \<not> HasError (Diagnostics nsp) \<longrightarrow>
      NameserversResource_Read (Some c) \<lparr>Read_State = Object ns\<rparr> nsp =
        (Returned (State_RemoveResource nsp), [Call_GetDeployment]))"
proof (intro conjI impI)
  show "rejected_keeping_state resp (DeploymentDataSource_Read (Some c) req resp)"
    using assms
    by (simp add: DeploymentDataSource_Read_def Let_def case_prod_beta
          rejected_keeping_state_def State_Diagnostics_AddError State_Diagnostics_Append
          HasError_Diagnostics_AddError)
next
  assume "\<not> HasError (Diagnostics resp)"
  then show "DeploymentDataSource_Read (Some c) \<lparr>Read_Config = Object cfg\<rparr> resp =
        (Returned (Diagnostics_AddError ''Client Error''
           (''Unable to read Common Fate deployment metadata, got error: '' @ Error e) resp),
         [Call_GetDeployment])"
    using assms
    by (simp add: DeploymentDataSource_Read_def Get_Object Diagnostics_Append_Nil
          case_prod_beta)
next
  assume "CodeOf (Some e) = CodeNotFound \<and> \<not> HasError (Diagnostics nsp)"
  then show "NameserversResource_Read (Some c) \<lparr>Read_State = Object ns\<rparr> nsp =
        (Returned (State_RemoveResource nsp), [Call_GetDeployment])"
    using assms
    by (simp add: NameserversResource_Read_def Get_Object Diagnostics_Append_Nil
          case_prod_beta)
qed

text \<open>
  The deployment service answers \<open>NotFound\<close>: the data source reports the error and
  leaves its state alone, the nameserver set loses its state.
\<close>

theorem deployment_read_failure_is_error_witness:
  "snd (GetDeployment (failing_client not_found) ()) = Some not_found \<and>
   DeploymentDataSource_Read (Some (failing_client not_found))
     \<lparr>Read_Config = Object deployment_example\<rparr> (holding (Object deployment_example)) =
     (Returned
        \<lparr>State = Object deployment_example,
         Diagnostics = [NewErrorDiagnostic ''Client Error''
           ''Unable to read Common Fate deployment metadata, got error: not_found: no such record'']\<rparr>,
      [Call_GetDeployment]) \<and>
   NameserversResource_Read (Some (failing_client not_found))
     \<lparr>Read_State = Object ns_example\<rparr> (holding (Object ns_example)) =
     (Returned (holding Null), [Call_GetDeployment])"
proof -
  have fails: "snd (GetDeployment (failing_client not_found) ()) = Some not_found"
    by (simp add: failing_client_def)
  have ds: "DeploymentDataSource_Read (Some (failing_client not_found))
     \<lparr>Read_Config = Object deployment_example\<rparr> (holding (Object deployment_example)) =
     (Returned
        \<lparr>State = Object deployment_example,
         Diagnostics = [NewErrorDiagnostic ''Client Error''
           ''Unable to read Common Fate deployment metadata, got error: not_found: no such record'']\<rparr>,
      [Call_GetDeployment])"
    using deployment_read_failure_is_error
      [OF fails, where resp = "holding (Object deployment_example)"
         and cfg = deployment_example, THEN conjunct2, THEN conjunct1]
    by (simp add: holding_def HasError_def not_found_def Diagnostics_AddError_def
          AddError_def)
  have ns: "NameserversResource_Read (Some (failing_client not_found))
     \<lparr>Read_State = Object ns_example\<rparr> (holding (Object ns_example)) =
     (Returned (holding Null), [Call_GetDeployment])"
    using deployment_read_failure_is_error
      [OF fails, where nsp = "holding (Object ns_example)" and ns = ns_example,
       THEN conjunct2, THEN conjunct2]
    by (simp add: holding_def HasError_def not_found_def State_RemoveResource_def)
  show ?thesis
    by (intro conjI fails ds ns)
qed

end
